theory Spec2Isabelle
  imports Main "HOL-Library.Sublist" "HOL-Library.Word" "HOL-Library.AList"
begin

unbundle bit_operations_syntax

section \<open>Errors of the server\<close>

text \<open>
  The error codes of the tool-invocation SDK that the server uses, and the three kinds of
  value a JavaScript \<open>catch\<close> can see: an \<open>McpError\<close> (code and message), any other
  \<open>Error\<close> instance (message), and a thrown value that is no \<open>Error\<close> at all.
\<close>

datatype ErrorCode = ParseError | InvalidRequest | MethodNotFound | InvalidParams | InternalError

datatype thrown = McpError ErrorCode string | Error string | NonError string

fun show_nat :: "nat \<Rightarrow> string" where
  "show_nat n =
     (if n < 10 then [char_of (48 + n)] else show_nat (n div 10) @ [char_of (48 + n mod 10)])"

definition show_int :: "int \<Rightarrow> string" where
  "show_int i = (if i < 0 then CHR ''-'' # show_nat (nat (- i)) else show_nat (nat i))"

definition code_number :: "ErrorCode \<Rightarrow> int" where
  "code_number c =
     (case c of ParseError \<Rightarrow> - 32700 | InvalidRequest \<Rightarrow> - 32600 | MethodNotFound \<Rightarrow> - 32601
              | InvalidParams \<Rightarrow> - 32602 | InternalError \<Rightarrow> - 32603)"

text \<open>
  \<open>error instanceof Error ? error.message : String(error)\<close>. The SDK's \<open>McpError\<close>
  constructor stores its message behind the prefix \<open>MCP error <code>: \<close>.
\<close>

definition error_message :: "thrown \<Rightarrow> string" where
  "error_message e =
     (case e of McpError c m \<Rightarrow> ''MCP error '' @ show_int (code_number c) @ '': '' @ m
              | Error m \<Rightarrow> m
              | NonError v \<Rightarrow> v)"

section \<open>Strings and POSIX paths\<close>

text \<open>
  Strings are lists of characters, each standing for one UTF-16 code unit below 256, so
  that \<open>length\<close> is the \<open>length\<close> of JavaScript. The path functions are the POSIX
  flavour of Node's \<open>path\<close> module, where the separator is \<open>/\<close>.
\<close>

fun startsWith :: "string \<Rightarrow> string \<Rightarrow> bool" where
  "startsWith s [] = True"
| "startsWith [] (p # ps) = False"
| "startsWith (c # cs) (p # ps) = (c = p \<and> startsWith cs ps)"

fun str_includes :: "string \<Rightarrow> string \<Rightarrow> bool" where
  "str_includes [] sub = (sub = [])"
| "str_includes (c # cs) sub = (startsWith (c # cs) sub \<or> str_includes cs sub)"

fun splitOn :: "char \<Rightarrow> string \<Rightarrow> string list" where
  "splitOn d [] = [[]]"
| "splitOn d (c # cs) =
     (if c = d then [] # splitOn d cs
      else (case splitOn d cs of [] \<Rightarrow> [[c]] | s # ss \<Rightarrow> (c # s) # ss))"

fun joinWith :: "string \<Rightarrow> string list \<Rightarrow> string" where
  "joinWith d [] = []"
| "joinWith d [s] = s"
| "joinWith d (s # t # ss) = s @ d @ joinWith d (t # ss)"

text \<open>
  Node's \<open>normalizeString\<close>, segment by segment: empty segments and \<open>.\<close> are dropped,
  \<open>..\<close> removes the segment before it; at the top it is kept only when
  \<open>allowAboveRoot\<close> is set.
\<close>

fun normalizeSegs :: "bool \<Rightarrow> string list \<Rightarrow> string list \<Rightarrow> string list" where
  "normalizeSegs allowAboveRoot res [] = res"
| "normalizeSegs allowAboveRoot res (s # ss) =
     (if s = [] \<or> s = ''.'' then normalizeSegs allowAboveRoot res ss
      else if s = ''..'' then
        (if res \<noteq> [] \<and> last res \<noteq> ''..'' then normalizeSegs allowAboveRoot (butlast res) ss
         else if allowAboveRoot then normalizeSegs allowAboveRoot (res @ [''..'']) ss
         else normalizeSegs allowAboveRoot res ss)
      else normalizeSegs allowAboveRoot (res @ [s]) ss)"

text \<open>
  \<open>path.resolve(p)\<close> of Node's POSIX path module with one argument: an absolute \<open>p\<close> is
  taken alone, any other is put behind the working directory (empty strings are skipped);
  the result is normalised and has no trailing separator.
\<close>

definition isAbsolute :: "string \<Rightarrow> bool" where
  "isAbsolute p = (case p of [] \<Rightarrow> False | c # cs \<Rightarrow> c = CHR ''/'')"

definition resolve_raw :: "string \<Rightarrow> string \<Rightarrow> string \<times> bool" where
  "resolve_raw cwd p =
     (if isAbsolute p then (p @ ''/'', True)
      else let r1 = (if p = [] then [] else p @ ''/'')
           in if cwd = [] then (r1, False) else (cwd @ ''/'' @ r1, isAbsolute cwd))"

definition resolved_segments :: "string \<Rightarrow> string \<Rightarrow> string list" where
  "resolved_segments cwd p =
     (case resolve_raw cwd p of (resolvedPath, resolvedAbsolute) \<Rightarrow>
        normalizeSegs (\<not> resolvedAbsolute) [] (splitOn CHR ''/'' resolvedPath))"

definition path_resolve :: "string \<Rightarrow> string \<Rightarrow> string" where
  "path_resolve cwd p =
     (let norm = joinWith ''/'' (resolved_segments cwd p)
      in if snd (resolve_raw cwd p) then CHR ''/'' # norm
         else if norm \<noteq> [] then norm else ''.'')"

section \<open>PathValidator\<close>

text \<open>
  The validator is built from the images directory, the working directory of the process
  and the home directory. A path is resolved, refused when the resolved string contains
  \<open>..\<close>, and refused when no resolved allowed directory is the path itself or a prefix
  of it that ends before a separator.
\<close>

record process_env =
  cwd :: string
  homedir :: string
  platform :: string

record PathValidator =
  allowedDirectories :: "string list"
  imagesDirectory :: string

definition new_PathValidator :: "process_env \<Rightarrow> string \<Rightarrow> PathValidator" where
  "new_PathValidator env imagesDir =
     \<lparr>allowedDirectories = [imagesDir, cwd env, homedir env], imagesDirectory = imagesDir\<rparr>"

definition traversal_message :: "string \<Rightarrow> string" where
  "traversal_message filePath =
     ''Path contains directory traversal: '' @ filePath @ ''. Paths must be within allowed directories.''"

definition not_allowed_message :: "PathValidator \<Rightarrow> string \<Rightarrow> string" where
  "not_allowed_message pv filePath =
     ''Path not allowed: '' @ filePath @ ''. Must be within: '' @ joinWith '', '' (allowedDirectories pv)"

definition isAllowed :: "process_env \<Rightarrow> PathValidator \<Rightarrow> string \<Rightarrow> bool" where
  "isAllowed env pv resolvedPath =
     list_ex (\<lambda>allowedDir.
        let resolvedAllowed = path_resolve (cwd env) allowedDir
        in startsWith resolvedPath (resolvedAllowed @ ''/'') \<or> resolvedPath = resolvedAllowed)
       (allowedDirectories pv)"

definition validateAndSanitize :: "process_env \<Rightarrow> PathValidator \<Rightarrow> string \<Rightarrow> thrown + string" where
  "validateAndSanitize env pv filePath =
     (let resolvedPath = path_resolve (cwd env) filePath
      in if str_includes resolvedPath ''..''
         then Inl (McpError InvalidParams (traversal_message filePath))
         else if \<not> isAllowed env pv resolvedPath
         then Inl (McpError InvalidParams (not_allowed_message pv filePath))
         else Inr resolvedPath)"

text \<open>
  \<open>toLowerCase\<close> on code units below 256: the letters A to Z, and the Latin-1 capitals
  from 0xC0 to 0xDE other than the multiplication sign 0xD7, move up by 32.
\<close>

definition isUpperCase :: "char \<Rightarrow> bool" where
  "isUpperCase c =
     ((65::nat) \<le> of_char c \<and> of_char c \<le> (90::nat)
      \<or> (192::nat) \<le> of_char c \<and> of_char c \<le> (222::nat) \<and> of_char c \<noteq> (215::nat))"

definition toLowerCase :: "string \<Rightarrow> string" where
  "toLowerCase s = map (\<lambda>c. if isUpperCase c then char_of (of_char c + (32::nat)) else c) s"

text \<open>
  \<open>path.normalize\<close>, \<open>path.join\<close> and \<open>path.extname\<close> of the same POSIX module.
\<close>

definition path_normalize :: "string \<Rightarrow> string" where
  "path_normalize p =
     (if p = [] then ''.''
      else let absolute = isAbsolute p;
               trailingSeparator = (last p = CHR ''/'');
               norm = joinWith ''/'' (normalizeSegs (\<not> absolute) [] (splitOn CHR ''/'' p))
           in if norm = [] then (if absolute then ''/'' else if trailingSeparator then ''./'' else ''.'')
              else (if absolute then ''/'' else []) @ norm @ (if trailingSeparator then ''/'' else []))"

definition path_join :: "string list \<Rightarrow> string" where
  "path_join args =
     (case filter (\<lambda>a. a \<noteq> []) args of [] \<Rightarrow> ''.'' | parts \<Rightarrow> path_normalize (joinWith ''/'' parts))"

fun dropTrailingSeps :: "string \<Rightarrow> string" where
  "dropTrailingSeps s = rev (dropWhile (\<lambda>c. c = CHR ''/'') (rev s))"

definition path_extname :: "string \<Rightarrow> string" where
  "path_extname p =
     (let base = last (splitOn CHR ''/'' (dropTrailingSeps p));
          stem = rev (dropWhile (\<lambda>c. c \<noteq> CHR ''.'') (rev base))
      in if stem = [] \<or> stem = ''.'' \<or> base = ''..'' then []
         else drop (length stem - 1) base)"

definition isImageFile :: "string \<Rightarrow> bool" where
  "isImageFile filePath = (toLowerCase (path_extname filePath) \<in> set [''.png'', ''.jpg'', ''.jpeg'', ''.webp''])"

section \<open>Configuration and image records\<close>

datatype ConfigSource = environment | config_file | not_configured

record Config =
  geminiApiKey :: string
  model :: string
  defaultFormat :: string
  outputDirectory :: "string option"
  maxImageSize :: int
  maxPromptLength :: int
  maxReferenceImages :: int

record GenerationSettings =
  settings_model :: "string option"
  settings_format :: "string option"
  settings_quality :: "string option"

datatype ImageType = generated | edited

record ImageMetadata =
  image_id :: string
  filePath :: string
  uri :: string
  prompt :: string
  image_type :: ImageType
  timestamp :: string
  image_model :: string
  image_format :: string
  image_size :: nat
  referenceImages :: "string list option"
  parentImageId :: "string option"

section \<open>The file system\<close>

text \<open>
  A file holds what was written to it and a permission mode. JSON text is modelled by the
  value it encodes: \<open>JSON.stringify\<close> followed by \<open>JSON.parse\<close> gives the value back.
  Directories are implicit. A write or a \<open>mkdir\<close> at a path in \<open>write_denied\<close> fails,
  for whatever reason the operating system has: the table \<open>write_failure\<close> gives, for
  the path, the message of the error thrown (\<open>EACCES\<close> for a file that may not be
  written, \<open>ENOENT\<close> for a directory that is gone, \<open>ENOSPC\<close> for a full disk) and
  what the failed write leaves: the file as it was, or a file cut down to the bytes
  that reached the disk. A removal at a path in \<open>unlink_denied\<close> fails.
\<close>

datatype file_content = ConfigDoc Config | MetadataDoc "ImageMetadata list" | Bytes string

type_synonym file_mode = "12 word"

datatype failed_write = FailedWrite (failure_message: string) (failure_leaves: "string option")

record filesystem =
  files :: "string \<rightharpoonup> file_content \<times> file_mode"
  umask :: file_mode
  write_denied :: "string set"
  unlink_denied :: "string set"
  write_failure :: "string \<Rightarrow> failed_write"

definition fs_access :: "filesystem \<Rightarrow> string \<Rightarrow> bool" where
  "fs_access fs p = (files fs p \<noteq> None)"

definition fs_readFile :: "filesystem \<Rightarrow> string \<Rightarrow> thrown + file_content" where
  "fs_readFile fs p =
     (case files fs p of
        None \<Rightarrow> Inl (Error (''ENOENT: no such file or directory, open '' @ [CHR 0x27] @ p @ [CHR 0x27]))
      | Some (c, m) \<Rightarrow> Inr c)"

text \<open>
  \<open>fs.writeFile(path, data, {mode})\<close>: a new file gets the requested mode (0o666 = 438 when
  none is given) without the bits of the process umask; an existing file keeps its mode.
\<close>

definition mode_after_write :: "filesystem \<Rightarrow> string \<Rightarrow> file_mode option \<Rightarrow> file_mode" where
  "mode_after_write fs p mode_opt =
     (case files fs p of
        Some (c, old) \<Rightarrow> old
      | None \<Rightarrow> (case mode_opt of None \<Rightarrow> 438 | Some r \<Rightarrow> r) AND NOT (umask fs))"

text \<open>
  What is at the path after a write that failed. A failed write returns the error
  together with the disk it leaves.
\<close>

definition after_failed_write ::
  "filesystem \<Rightarrow> string \<Rightarrow> file_mode option \<Rightarrow> (file_content \<times> file_mode) option" where
  "after_failed_write fs p mode_opt =
     (case failure_leaves (write_failure fs p) of
        None \<Rightarrow> files fs p
      | Some written \<Rightarrow> Some (Bytes written, mode_after_write fs p mode_opt))"

definition fs_writeFile ::
  "filesystem \<Rightarrow> string \<Rightarrow> file_content \<Rightarrow> file_mode option \<Rightarrow> thrown \<times> filesystem + filesystem" where
  "fs_writeFile fs p d mode_opt =
     (if p \<in> write_denied fs
      then Inl (Error (failure_message (write_failure fs p)),
                fs\<lparr>files := (files fs)(p := after_failed_write fs p mode_opt)\<rparr>)
      else Inr (fs\<lparr>files := (files fs)(p \<mapsto> (d, mode_after_write fs p mode_opt))\<rparr>))"

definition fs_unlink :: "filesystem \<Rightarrow> string \<Rightarrow> thrown + filesystem" where
  "fs_unlink fs p =
     (if files fs p = None
      then Inl (Error (''ENOENT: no such file or directory, unlink '' @ [CHR 0x27] @ p @ [CHR 0x27]))
      else if p \<in> unlink_denied fs
      then Inl (Error (''EACCES: permission denied, unlink '' @ [CHR 0x27] @ p @ [CHR 0x27]))
      else Inr (fs\<lparr>files := (files fs)(p := None)\<rparr>))"

definition fs_mkdir :: "filesystem \<Rightarrow> string \<Rightarrow> thrown + filesystem" where
  "fs_mkdir fs p =
     (if p \<in> write_denied fs
      then Inl (Error (failure_message (write_failure fs p)))
      else Inr fs)"

section \<open>The server state\<close>

text \<open>
  The fields of \<open>ImgMcp\<close>. The JavaScript \<open>Map\<close> of image records keeps insertion
  order, so it is an association list: \<open>set\<close> replaces in place or appends, \<open>delete\<close>
  removes the key.
\<close>

record ImgMcp =
  genAI :: "string option"
  config :: "Config option"
  configSource :: ConfigSource
  lastImagePath :: "string option"
  imageMetadata :: "(string \<times> ImageMetadata) list"
  pathValidator :: "PathValidator option"
  generationSettings :: GenerationSettings

definition Map_get :: "(string \<times> 'v) list \<Rightarrow> string \<Rightarrow> 'v option" where
  "Map_get m k = map_of m k"

definition Map_set :: "string \<Rightarrow> 'v \<Rightarrow> (string \<times> 'v) list \<Rightarrow> (string \<times> 'v) list" where
  "Map_set k v m = AList.update k v m"

definition Map_delete :: "string \<Rightarrow> (string \<times> 'v) list \<Rightarrow> (string \<times> 'v) list" where
  "Map_delete k m = AList.delete k m"

definition Map_values :: "(string \<times> 'v) list \<Rightarrow> 'v list" where
  "Map_values m = map snd m"

definition new_ImgMcp :: ImgMcp where
  "new_ImgMcp =
     \<lparr>genAI = None, config = None, configSource = not_configured, lastImagePath = None,
      imageMetadata = [], pathValidator = None,
      generationSettings = \<lparr>settings_model = None, settings_format = None, settings_quality = None\<rparr>\<rparr>"

datatype content_item = TextContent string | ImageContent string string

type_synonym CallToolResult = "content_item list"

definition ensureConfigured :: "ImgMcp \<Rightarrow> bool" where
  "ensureConfigured st = (config st \<noteq> None \<and> genAI st \<noteq> None)"

definition isImagenModel :: "string \<Rightarrow> bool" where
  "isImagenModel m = startsWith m ''imagen-''"

definition defaultImagesDirectory :: "process_env \<Rightarrow> string" where
  "defaultImagesDirectory env =
     (if platform env = ''win32'' then path_join [homedir env, ''Documents'', ''img-mcp-images'']
      else if startsWith (cwd env) ''/usr/'' \<or> startsWith (cwd env) ''/opt/'' \<or> startsWith (cwd env) ''/var/''
      then path_join [homedir env, ''img-mcp-images'']
      else path_join [cwd env, ''generated_imgs''])"

definition getImagesDirectory :: "process_env \<Rightarrow> ImgMcp \<Rightarrow> string" where
  "getImagesDirectory env st =
     (case config st of
        None \<Rightarrow> defaultImagesDirectory env
      | Some c \<Rightarrow>
          (case outputDirectory c of
             None \<Rightarrow> defaultImagesDirectory env
           | Some d \<Rightarrow> if d \<noteq> [] then d else defaultImagesDirectory env))"

definition saveConfig :: "process_env \<Rightarrow> ImgMcp \<Rightarrow> filesystem \<Rightarrow> thrown \<times> filesystem + filesystem" where
  "saveConfig env st fs =
     (case config st of
        None \<Rightarrow> Inr fs
      | Some c \<Rightarrow>
          let configPath = path_join [cwd env, ''.img-mcp-config.json''];
              configToSave = (if configSource st = environment
                              then c\<lparr>geminiApiKey := ''[REDACTED]''\<rparr> else c)
          in fs_writeFile fs configPath (ConfigDoc configToSave) None)"

definition metadataPath :: "process_env \<Rightarrow> ImgMcp \<Rightarrow> string" where
  "metadataPath env st = path_join [getImagesDirectory env st, ''.metadata.json'']"

definition saveMetadata :: "process_env \<Rightarrow> ImgMcp \<Rightarrow> filesystem \<Rightarrow> thrown \<times> filesystem + filesystem" where
  "saveMetadata env st fs =
     (let metadataArray = Map_values (imageMetadata st)
      in fs_writeFile fs (metadataPath env st) (MetadataDoc metadataArray) None)"

fun loadMetadata_loop ::
  "filesystem \<Rightarrow> ImageMetadata list \<Rightarrow> (string \<times> ImageMetadata) list \<Rightarrow> (string \<times> ImageMetadata) list" where
  "loadMetadata_loop fs [] m = m"
| "loadMetadata_loop fs (meta # rest) m =
     loadMetadata_loop fs rest
       (if fs_access fs (filePath meta) then Map_set (image_id meta) meta m else m)"

definition loadMetadata :: "process_env \<Rightarrow> ImgMcp \<Rightarrow> filesystem \<Rightarrow> ImgMcp" where
  "loadMetadata env st fs =
     (case fs_readFile fs (metadataPath env st) of
        Inr (MetadataDoc metadataArray) \<Rightarrow>
          st\<lparr>imageMetadata := loadMetadata_loop fs metadataArray (imageMetadata st)\<rparr>
      | _ \<Rightarrow> st)"

definition configureGeminiToken ::
  "process_env \<Rightarrow> string \<Rightarrow> ImgMcp \<Rightarrow> filesystem \<Rightarrow> (thrown + CallToolResult) \<times> ImgMcp \<times> filesystem" where
  "configureGeminiToken env apiKey st fs =
     (if apiKey = []
      then (Inl (McpError InvalidParams ''Invalid API key: Gemini API key is required''), st, fs)
      else let st1 = st\<lparr>config := Some \<lparr>geminiApiKey = apiKey, model = ''gemini-2.5-flash-image-preview'',
                                          defaultFormat = ''png'', outputDirectory = None,
                                          maxImageSize = 10 * 1024 * 1024, maxPromptLength = 4000,
                                          maxReferenceImages = 5\<rparr>,
                          genAI := Some apiKey, configSource := config_file\<rparr>;
               imagesDir = getImagesDirectory env st1;
               st2 = st1\<lparr>pathValidator := Some (new_PathValidator env imagesDir)\<rparr>
           in case saveConfig env st2 fs of
                Inl (e, fs') \<Rightarrow> (Inl e, st2, fs')
              | Inr fs' \<Rightarrow>
                  (Inr [TextContent ''Gemini API token configured successfully. You can now use image generation features.''],
                   st2, fs'))"

text \<open>
  The id of a request that may carry the URI of the image: the first occurrence of the
  prefix is replaced by the empty string, and it is the one at the start.
\<close>

definition idOfRequest :: "string \<Rightarrow> string" where
  "idOfRequest imageId =
     (if startsWith imageId ''img://image/'' then drop (length ''img://image/'') imageId
      else imageId)"

definition deleteImage ::
  "process_env \<Rightarrow> string \<Rightarrow> ImgMcp \<Rightarrow> filesystem \<Rightarrow> (thrown + CallToolResult) \<times> ImgMcp \<times> filesystem" where
  "deleteImage env imageId st fs =
     (let ident = idOfRequest imageId
      in case Map_get (imageMetadata st) ident of
           None \<Rightarrow> (Inl (McpError InvalidParams (''Image not found: '' @ ident)), st, fs)
         | Some metadata \<Rightarrow>
             let fs1 = (case fs_unlink fs (filePath metadata) of Inl e \<Rightarrow> fs | Inr fs' \<Rightarrow> fs');
                 st1 = st\<lparr>imageMetadata := Map_delete ident (imageMetadata st)\<rparr>
             in case saveMetadata env st1 fs1 of
                  Inl (e, fs2) \<Rightarrow> (Inl e, st1, fs2)
                | Inr fs2 \<Rightarrow> (Inr [TextContent (''Image deleted successfully: '' @ ident)], st1, fs2))"

section \<open>Retry with exponential backoff\<close>

text \<open>
  The operation is given by the outcome of each of its invocations, counted from 0. The
  result holds the outcome, the number of invocations made and the delays waited, in order.
\<close>

definition toError :: "thrown \<Rightarrow> thrown" where
  "toError e = (case e of NonError v \<Rightarrow> Error v | _ \<Rightarrow> e)"

definition nonRetryable :: "thrown \<Rightarrow> bool" where
  "nonRetryable e = (case e of McpError c m \<Rightarrow> c = InvalidParams \<or> c = InvalidRequest | _ \<Rightarrow> False)"

function retry_loop ::
  "(nat \<Rightarrow> thrown + 'a) \<Rightarrow> int \<Rightarrow> int \<Rightarrow> int \<Rightarrow> thrown option \<Rightarrow> nat \<Rightarrow> int list
     \<Rightarrow> (thrown + 'a) \<times> nat \<times> int list" where
  "retry_loop fn maxRetries initialDelay attempt lastError calls delays =
     (if attempt \<le> maxRetries then
        (case fn calls of
           Inr v \<Rightarrow> (Inr v, Suc calls, delays)
         | Inl e \<Rightarrow>
             if nonRetryable e then (Inl e, Suc calls, delays)
             else if attempt < maxRetries
             then retry_loop fn maxRetries initialDelay (attempt + 1) (Some (toError e)) (Suc calls)
                    (delays @ [initialDelay * 2 ^ nat attempt])
             else retry_loop fn maxRetries initialDelay (attempt + 1) (Some (toError e)) (Suc calls) delays)
      else (Inl (case lastError of Some e \<Rightarrow> e | None \<Rightarrow> Error ''Unknown error''), calls, delays))"
  by pat_completeness auto
termination
  by (relation "measure (\<lambda>(fn, maxRetries, initialDelay, attempt, lastError, calls, delays).
                   nat (maxRetries + 1 - attempt))") auto

definition retryWithBackoff ::
  "(nat \<Rightarrow> thrown + 'a) \<Rightarrow> int \<Rightarrow> int \<Rightarrow> (thrown + 'a) \<times> nat \<times> int list" where
  "retryWithBackoff fn maxRetries initialDelay = retry_loop fn maxRetries initialDelay 0 None 0 []"

section \<open>The upstream service and the clock\<close>

text \<open>
  What the server cannot compute is given to the model as a value: the outcome of each
  invocation of the two upstream calls (already reduced to the part of the response that
  the server reads), whether the client offers \<open>generateImages\<close>, the base64 decoder of
  \<open>Buffer.from\<close>, and the readings of the clock and of the random generator taken
  for the k-th part of a response.
\<close>

record imagePayload =
  imageBytes :: "string option"
  payload_mimeType :: "string option"

record generatedImage =
  image :: "imagePayload option"
  own_imageBytes :: "string option"
  enhancedPrompt :: "string option"

record inlineData =
  inline_data :: "string option"
  inline_mimeType :: "string option"

record part =
  part_text :: "string option"
  part_inlineData :: "inlineData option"

record clock_reading =
  isoNow :: string
  randomId :: string
  isoStamp :: string

record upstream =
  hasGenerateImages :: bool
  generateImages :: "nat \<Rightarrow> thrown + generatedImage list option"
  generateContent :: "nat \<Rightarrow> thrown + part list option"
  base64_decode :: "string \<Rightarrow> string"
  clock :: "nat \<Rightarrow> clock_reading"

definition truthy :: "string option \<Rightarrow> bool" where
  "truthy s = (case s of None \<Rightarrow> False | Some v \<Rightarrow> v \<noteq> [])"

definition or_else :: "string option \<Rightarrow> string \<Rightarrow> string" where
  "or_else s d = (case s of None \<Rightarrow> d | Some v \<Rightarrow> if v \<noteq> [] then v else d)"

definition nl :: string where
  "nl = [CHR 0x0A]"

definition dquote :: string where
  "dquote = [CHR 0x22]"

text \<open>
  What \<open>String.prototype.trim\<close> strips, among the code units below 256: tab, line feed,
  vertical tab, form feed, carriage return, space and the no-break space 0xA0.
\<close>

definition isWhitespace :: "char \<Rightarrow> bool" where
  "isWhitespace c = (c \<in> set [CHR 0x09, CHR 0x0A, CHR 0x0B, CHR 0x0C, CHR 0x0D, CHR 0x20, CHR 0xA0])"

definition trim :: "string \<Rightarrow> string" where
  "trim s = rev (dropWhile isWhitespace (rev (dropWhile isWhitespace s)))"

definition imageIdOf :: "clock_reading \<Rightarrow> string" where
  "imageIdOf r =
     map (\<lambda>c. if c = CHR '':'' \<or> c = CHR ''.'' then CHR ''-'' else c) (isoNow r) @ ''-'' @ randomId r"

definition selectModel :: "ImgMcp \<Rightarrow> string option \<Rightarrow> string" where
  "selectModel st requested =
     or_else requested
       (or_else (settings_model (generationSettings st))
          (or_else (map_option model (config st)) ''gemini-2.5-flash-image-preview''))"

definition selectFormat :: "ImgMcp \<Rightarrow> string option \<Rightarrow> string" where
  "selectFormat st requested =
     or_else requested
       (or_else (settings_format (generationSettings st))
          (or_else (map_option defaultFormat (config st)) ''png''))"

definition promptLimit :: "ImgMcp \<Rightarrow> int" where
  "promptLimit st =
     (case config st of None \<Rightarrow> 4000
      | Some c \<Rightarrow> if maxPromptLength c \<noteq> 0 then maxPromptLength c else 4000)"

definition referenceLimit :: "ImgMcp \<Rightarrow> int" where
  "referenceLimit st =
     (case config st of None \<Rightarrow> 5
      | Some c \<Rightarrow> if maxReferenceImages c \<noteq> 0 then maxReferenceImages c else 5)"

section \<open>generate_image\<close>

text \<open>The text, image data and MIME type read from a \<open>generateContent\<close> response.\<close>

fun readParts :: "string \<Rightarrow> part list \<Rightarrow> string \<times> string option \<times> string \<Rightarrow> string \<times> string option \<times> string" where
  "readParts dflt [] acc = acc"
| "readParts dflt (p # ps) (textContent, imageData, imageMimeType) =
     (let textContent' = (if truthy (part_text p) then textContent @ or_else (part_text p) [] else textContent)
      in case part_inlineData p of
           None \<Rightarrow> readParts dflt ps (textContent', imageData, imageMimeType)
         | Some inl \<Rightarrow>
             if truthy (inline_data inl)
             then readParts dflt ps (textContent', inline_data inl, or_else (inline_mimeType inl) dflt)
             else readParts dflt ps (textContent', imageData, imageMimeType))"

text \<open>The same from a \<open>generateImages\<close> response, which reads the first image only.\<close>

definition readGenerated :: "string \<Rightarrow> generatedImage list option \<Rightarrow> string \<times> string option \<times> string" where
  "readGenerated dflt generatedImages =
     (case generatedImages of
        Some (g # gs) \<Rightarrow>
          (case image g of
             Some payload \<Rightarrow>
               if truthy (imageBytes payload)
               then (if truthy (enhancedPrompt g) then or_else (enhancedPrompt g) [] else [],
                     own_imageBytes g, or_else (payload_mimeType payload) dflt)
               else ([], None, dflt)
           | None \<Rightarrow> ([], None, dflt))
      | _ \<Rightarrow> ([], None, dflt))"

definition callUpstream ::
  "upstream \<Rightarrow> string \<Rightarrow> string \<Rightarrow> thrown + string \<times> string option \<times> string" where
  "callUpstream up selectedModel selectedFormat =
     (let dflt = ''image/'' @ selectedFormat
      in if isImagenModel selectedModel \<and> hasGenerateImages up
         then (case fst (retryWithBackoff (generateImages up) 3 1000) of
                 Inl e \<Rightarrow> Inl e
               | Inr response \<Rightarrow> Inr (readGenerated dflt response))
         else (case fst (retryWithBackoff (generateContent up) 3 1000) of
                 Inl e \<Rightarrow> Inl e
               | Inr response \<Rightarrow>
                   Inr (case response of None \<Rightarrow> ([], None, dflt)
                        | Some parts \<Rightarrow> readParts dflt parts ([], None, dflt))))"

definition generatedMetadata ::
  "upstream \<Rightarrow> string \<Rightarrow> string \<Rightarrow> string \<Rightarrow> string \<Rightarrow> string \<Rightarrow> ImageMetadata" where
  "generatedMetadata up imagesDir promptText selectedModel selectedFormat imageData =
     (let imageId = imageIdOf (clock up 0)
      in \<lparr>image_id = imageId,
          filePath = path_join [imagesDir, ''generated-'' @ imageId @ ''.'' @ selectedFormat],
          uri = ''img://image/'' @ imageId,
          prompt = promptText,
          image_type = generated,
          timestamp = isoStamp (clock up 0),
          image_model = selectedModel,
          image_format = selectedFormat,
          image_size = length (base64_decode up imageData),
          referenceImages = None,
          parentImageId = None\<rparr>)"

text \<open>
  The block that stores a returned image: the file is written, the last-image pointer and
  the index are updated, and the index is persisted. It yields the files saved so far.
\<close>

definition storeGenerated ::
  "process_env \<Rightarrow> upstream \<Rightarrow> string \<Rightarrow> string \<Rightarrow> string \<Rightarrow> string \<Rightarrow> ImgMcp \<Rightarrow> filesystem
     \<Rightarrow> (thrown + string list) \<times> ImgMcp \<times> filesystem" where
  "storeGenerated env up promptText selectedModel selectedFormat imageData st fs =
     (let metadata = generatedMetadata up (getImagesDirectory env st) promptText selectedModel
                       selectedFormat imageData
      in case fs_writeFile fs (filePath metadata) (Bytes (base64_decode up imageData)) None of
           Inl (e, fs1) \<Rightarrow> (Inl e, st, fs1)
         | Inr fs1 \<Rightarrow>
             let st1 = st\<lparr>lastImagePath := Some (filePath metadata)\<rparr>;
                 st2 = st1\<lparr>imageMetadata := Map_set (image_id metadata) metadata (imageMetadata st1)\<rparr>
             in case saveMetadata env st2 fs1 of
                  Inl (e, fs2) \<Rightarrow> (Inl e, st2, fs2)
                | Inr fs2 \<Rightarrow> (Inr [filePath metadata], st2, fs2))"

definition generatedStatus :: "ImgMcp \<Rightarrow> string \<Rightarrow> string \<Rightarrow> string \<Rightarrow> string \<Rightarrow> string list \<Rightarrow> string" where
  "generatedStatus st promptText selectedModel selectedFormat textContent savedFiles =
     ''Image generated successfully.'' @ nl @ nl @ ''Prompt: '' @ dquote @ promptText @ dquote @ nl
       @ ''Model: '' @ selectedModel @ nl @ ''Format: '' @ selectedFormat
       @ (if textContent \<noteq> [] then nl @ nl @ ''Description: '' @ textContent else [])
       @ (case savedFiles of
            [] \<Rightarrow> nl @ nl @ ''Note: No image was generated. Try running the command again.''
          | f # fs \<Rightarrow>
              nl @ nl @ ''Image saved to: '' @ f
                @ (case find (\<lambda>m. filePath m = f) (Map_values (imageMetadata st)) of
                     None \<Rightarrow> []
                   | Some m \<Rightarrow> nl @ ''Image URI: '' @ uri m @ nl @ ''Image ID: '' @ image_id m)
                @ nl @ nl @ ''Use list_images to see all images, or get_image_metadata with the image ID for details.'')"

definition generateImage_try ::
  "process_env \<Rightarrow> upstream \<Rightarrow> string \<Rightarrow> string \<Rightarrow> string \<Rightarrow> ImgMcp \<Rightarrow> filesystem
     \<Rightarrow> (thrown + CallToolResult) \<times> ImgMcp \<times> filesystem" where
  "generateImage_try env up promptText selectedModel selectedFormat st fs =
     (case fs_mkdir fs (getImagesDirectory env st) of
        Inl e \<Rightarrow> (Inl e, st, fs)
      | Inr fs0 \<Rightarrow>
          (case callUpstream up selectedModel selectedFormat of
             Inl e \<Rightarrow> (Inl e, st, fs0)
           | Inr (textContent, imageData, imageMimeType) \<Rightarrow>
               if truthy imageData
               then (case storeGenerated env up promptText selectedModel selectedFormat
                            (or_else imageData []) st fs0 of
                       (Inl e, st', fs') \<Rightarrow> (Inl e, st', fs')
                     | (Inr savedFiles, st', fs') \<Rightarrow>
                         (Inr [TextContent (generatedStatus st' promptText selectedModel selectedFormat
                                              textContent savedFiles),
                               ImageContent (or_else imageData []) imageMimeType],
                          st', fs'))
               else (Inr [TextContent (generatedStatus st promptText selectedModel selectedFormat
                                         textContent [])],
                     st, fs0)))"

definition generateImage ::
  "process_env \<Rightarrow> upstream \<Rightarrow> string \<Rightarrow> string option \<Rightarrow> string option \<Rightarrow> ImgMcp \<Rightarrow> filesystem
     \<Rightarrow> (thrown + CallToolResult) \<times> ImgMcp \<times> filesystem" where
  "generateImage env up promptText requestedModel requestedFormat st fs =
     (if \<not> ensureConfigured st
      then (Inl (McpError InvalidRequest ''Gemini API token not configured. Use configure_gemini_token first.''), st, fs)
      else if promptText = [] \<or> length (trim promptText) = 0
      then (Inl (McpError InvalidParams ''Prompt cannot be empty''), st, fs)
      else if int (length promptText) > promptLimit st
      then (Inl (McpError InvalidParams (''Prompt too long. Maximum length: '' @ show_int (promptLimit st))), st, fs)
      else case generateImage_try env up promptText (selectModel st requestedModel)
                  (selectFormat st requestedFormat) st fs of
             (Inl e, st', fs') \<Rightarrow>
               (Inl (McpError InternalError (''Failed to generate image: '' @ error_message e)), st', fs')
           | (Inr content, st', fs') \<Rightarrow> (Inr content, st', fs'))"

section \<open>edit_image\<close>

definition getMimeType :: "string \<Rightarrow> string" where
  "getMimeType p =
     (let ext = toLowerCase (path_extname p)
      in if ext = ''.jpg'' \<or> ext = ''.jpeg'' then ''image/jpeg''
         else if ext = ''.png'' then ''image/png''
         else if ext = ''.webp'' then ''image/webp''
         else ''image/jpeg'')"

text \<open>
  The reference images that survive: one that fails validation, is no image file or cannot
  be read is skipped with a warning.
\<close>

fun validateReferences :: "process_env \<Rightarrow> PathValidator \<Rightarrow> filesystem \<Rightarrow> string list \<Rightarrow> string list" where
  "validateReferences env pv fs [] = []"
| "validateReferences env pv fs (refPath # rest) =
     (case validateAndSanitize env pv refPath of
        Inl e \<Rightarrow> validateReferences env pv fs rest
      | Inr validatedRefPath \<Rightarrow>
          if \<not> isImageFile validatedRefPath then validateReferences env pv fs rest
          else if \<not> fs_access fs validatedRefPath then validateReferences env pv fs rest
          else (case fs_readFile fs validatedRefPath of
                  Inl e \<Rightarrow> validateReferences env pv fs rest
                | Inr refBuffer \<Rightarrow> validatedRefPath # validateReferences env pv fs rest))"

record edit_context =
  ctx_prompt :: string
  ctx_model :: string
  ctx_format :: string
  ctx_imagesDir :: string
  ctx_references :: "string list"
  ctx_parent :: "ImageMetadata option"

record edit_progress =
  cur_state :: ImgMcp
  cur_fs :: filesystem
  textContent :: string
  savedFiles :: "string list"
  content :: "content_item list"

definition editedMetadata :: "upstream \<Rightarrow> edit_context \<Rightarrow> nat \<Rightarrow> string \<Rightarrow> ImageMetadata" where
  "editedMetadata up ctx k imageData =
     (let imageId = imageIdOf (clock up k)
      in \<lparr>image_id = imageId,
          filePath = path_join [ctx_imagesDir ctx, ''edited-'' @ imageId @ ''.'' @ ctx_format ctx],
          uri = ''img://image/'' @ imageId,
          prompt = ctx_prompt ctx,
          image_type = edited,
          timestamp = isoStamp (clock up k),
          image_model = ctx_model ctx,
          image_format = ctx_format ctx,
          image_size = length (base64_decode up imageData),
          referenceImages = (if length (ctx_references ctx) > 0 then Some (ctx_references ctx) else None),
          parentImageId = map_option image_id (ctx_parent ctx)\<rparr>)"

text \<open>
  The loop over the parts of the response; \<open>k\<close> is the position of the part. An
  exception leaves the loop with the state reached so far.
\<close>

fun editParts ::
  "process_env \<Rightarrow> upstream \<Rightarrow> edit_context \<Rightarrow> nat \<Rightarrow> part list \<Rightarrow> edit_progress
     \<Rightarrow> thrown option \<times> edit_progress" where
  "editParts env up ctx k [] acc = (None, acc)"
| "editParts env up ctx k (p # ps) acc =
     (let acc1 = (if truthy (part_text p)
                  then acc\<lparr>textContent := textContent acc @ or_else (part_text p) []\<rparr> else acc)
      in case part_inlineData p of
           None \<Rightarrow> editParts env up ctx (Suc k) ps acc1
         | Some inl \<Rightarrow>
             if \<not> truthy (inline_data inl) then editParts env up ctx (Suc k) ps acc1
             else
               let imageData = or_else (inline_data inl) [];
                   metadata = editedMetadata up ctx k imageData
               in case fs_writeFile (cur_fs acc1) (filePath metadata)
                         (Bytes (base64_decode up imageData)) None of
                    Inl (e, fs1) \<Rightarrow> (Some e, acc1\<lparr>cur_fs := fs1\<rparr>)
                  | Inr fs1 \<Rightarrow>
                      let st1 = (cur_state acc1)\<lparr>lastImagePath := Some (filePath metadata)\<rparr>;
                          st2 = st1\<lparr>imageMetadata := Map_set (image_id metadata) metadata (imageMetadata st1)\<rparr>;
                          acc2 = acc1\<lparr>cur_state := st2, cur_fs := fs1,
                                      savedFiles := savedFiles acc1 @ [filePath metadata]\<rparr>
                      in case saveMetadata env st2 fs1 of
                           Inl (e, fs2) \<Rightarrow> (Some e, acc2\<lparr>cur_fs := fs2\<rparr>)
                         | Inr fs2 \<Rightarrow>
                             editParts env up ctx (Suc k) ps
                               (acc2\<lparr>cur_fs := fs2,
                                      content := content acc2 @
                                        [ImageContent imageData
                                           (or_else (inline_mimeType inl) (''image/'' @ ctx_format ctx))]\<rparr>))"

definition editedStatus :: "ImgMcp \<Rightarrow> string \<Rightarrow> string \<Rightarrow> string list \<Rightarrow> string \<Rightarrow> string list \<Rightarrow> string" where
  "editedStatus st imagePath promptText refs text saved =
     ''Image edited successfully.'' @ nl @ nl @ ''Original: '' @ imagePath @ nl
       @ ''Edit prompt: '' @ dquote @ promptText @ dquote
       @ (if length refs > 0 then nl @ nl @ ''Reference images used: '' @ show_nat (length refs) else [])
       @ (if text \<noteq> [] then nl @ nl @ ''Description: '' @ text else [])
       @ (case saved of
            [] \<Rightarrow> nl @ nl @ ''Note: No edited image was generated. Try running the command again.''
          | f # fs \<Rightarrow>
              nl @ nl @ ''Edited image saved to: '' @ f
                @ (case find (\<lambda>m. filePath m = f) (Map_values (imageMetadata st)) of
                     None \<Rightarrow> []
                   | Some m \<Rightarrow> nl @ ''Image URI: '' @ uri m @ nl @ ''Image ID: '' @ image_id m))"

text \<open>
  What every record of one edit shares: the prompt, the model and format in force, the
  images directory, the surviving reference images and the record of the edited file, if
  the index has one.
\<close>

definition editContext :: "process_env \<Rightarrow> ImgMcp \<Rightarrow> string \<Rightarrow> string \<Rightarrow> string list \<Rightarrow> edit_context" where
  "editContext env st promptText validatedImagePath refs =
     \<lparr>ctx_prompt = promptText, ctx_model = selectModel st None, ctx_format = selectFormat st None,
      ctx_imagesDir = getImagesDirectory env st, ctx_references = refs,
      ctx_parent = find (\<lambda>m. filePath m = validatedImagePath) (Map_values (imageMetadata st))\<rparr>"

definition editImage_try ::
  "process_env \<Rightarrow> upstream \<Rightarrow> string \<Rightarrow> string \<Rightarrow> string \<Rightarrow> string list \<Rightarrow> ImgMcp \<Rightarrow> filesystem
     \<Rightarrow> (thrown + CallToolResult) \<times> ImgMcp \<times> filesystem" where
  "editImage_try env up imagePath validatedImagePath promptText refs st fs =
     (case fst (retryWithBackoff (generateContent up) 3 1000) of
        Inl e \<Rightarrow> (Inl e, st, fs)
      | Inr response \<Rightarrow>
          (case fs_mkdir fs (getImagesDirectory env st) of
             Inl e \<Rightarrow> (Inl e, st, fs)
           | Inr fs0 \<Rightarrow>
               let ctx = editContext env st promptText validatedImagePath refs;
                   start = \<lparr>cur_state = st, cur_fs = fs0, textContent = [], savedFiles = [], content = []\<rparr>
               in case editParts env up ctx 0 (case response of None \<Rightarrow> [] | Some parts \<Rightarrow> parts) start of
                    (Some e, acc) \<Rightarrow> (Inl e, cur_state acc, cur_fs acc)
                  | (None, acc) \<Rightarrow>
                      (Inr (TextContent (editedStatus (cur_state acc) imagePath promptText refs
                                           (textContent acc) (savedFiles acc)) # content acc),
                       cur_state acc, cur_fs acc)))"

text \<open>The validator of the server, created on first use.\<close>

definition validatorInForce :: "process_env \<Rightarrow> ImgMcp \<Rightarrow> PathValidator" where
  "validatorInForce env st =
     (case pathValidator st of
        None \<Rightarrow> new_PathValidator env (getImagesDirectory env st)
      | Some v \<Rightarrow> v)"

definition survivingReferences ::
  "process_env \<Rightarrow> PathValidator \<Rightarrow> filesystem \<Rightarrow> string list option \<Rightarrow> string list" where
  "survivingReferences env pv fs refImages =
     (case refImages of None \<Rightarrow> [] | Some rs \<Rightarrow> validateReferences env pv fs rs)"

definition editImage ::
  "process_env \<Rightarrow> upstream \<Rightarrow> string \<Rightarrow> string \<Rightarrow> string list option \<Rightarrow> ImgMcp \<Rightarrow> filesystem
     \<Rightarrow> (thrown + CallToolResult) \<times> ImgMcp \<times> filesystem" where
  "editImage env up imagePath promptText refImages st fs =
     (if \<not> ensureConfigured st
      then (Inl (McpError InvalidRequest ''Gemini API token not configured. Use configure_gemini_token first.''), st, fs)
      else
        let pv = validatorInForce env st;
            st0 = st\<lparr>pathValidator := Some pv\<rparr>
        in case validateAndSanitize env pv imagePath of
             Inl e \<Rightarrow> (Inl e, st0, fs)
           | Inr validatedImagePath \<Rightarrow>
               if \<not> isImageFile validatedImagePath
               then (Inl (McpError InvalidParams (''File is not a supported image format: '' @ imagePath)), st0, fs)
               else if (case refImages of None \<Rightarrow> False
                        | Some rs \<Rightarrow> int (length rs) > referenceLimit st0)
               then (Inl (McpError InvalidParams
                            (''Too many reference images. Maximum: '' @ show_int (referenceLimit st0))), st0, fs)
               else if \<not> fs_access fs validatedImagePath
               then (Inl (McpError InvalidParams (''Image file not found: '' @ imagePath)), st0, fs)
               else (case fs_readFile fs validatedImagePath of
                       Inl e \<Rightarrow> (Inl e, st0, fs)
                     | Inr imageBuffer \<Rightarrow>
                         let refs = survivingReferences env pv fs refImages
                         in case editImage_try env up imagePath validatedImagePath promptText refs st0 fs of
                              (Inl e, st', fs') \<Rightarrow>
                                (Inl (McpError InternalError (''Failed to edit image: '' @ error_message e)),
                                 st', fs')
                            | (Inr result, st', fs') \<Rightarrow> (Inr result, st', fs')))"

section \<open>The tool dispatcher\<close>

text \<open>
  The request handler, for the tools that change the configuration or the store. An
  \<open>McpError\<close> passes through; any other exception becomes an internal error.
\<close>

datatype tool_request =
    configure_gemini_token string
  | generate_image string "string option" "string option"
  | edit_image string string "string list option"
  | delete_image string
  | unknown_tool string

definition callTool ::
  "process_env \<Rightarrow> upstream \<Rightarrow> tool_request \<Rightarrow> ImgMcp \<Rightarrow> filesystem
     \<Rightarrow> (thrown + CallToolResult) \<times> ImgMcp \<times> filesystem" where
  "callTool env up request st fs =
     (case (case request of
              configure_gemini_token apiKey \<Rightarrow> configureGeminiToken env apiKey st fs
            | generate_image promptText m f \<Rightarrow> generateImage env up promptText m f st fs
            | edit_image imagePath promptText refs \<Rightarrow> editImage env up imagePath promptText refs st fs
            | delete_image imageId \<Rightarrow> deleteImage env imageId st fs
            | unknown_tool toolName \<Rightarrow> (Inl (McpError MethodNotFound (''Unknown tool: '' @ toolName)), st, fs)) of
        (Inl (McpError c m), st', fs') \<Rightarrow> (Inl (McpError c m), st', fs')
      | (Inl e, st', fs') \<Rightarrow>
          (Inl (McpError InternalError (''Tool execution failed: '' @ error_message e)), st', fs')
      | (Inr result, st', fs') \<Rightarrow> (Inr result, st', fs'))"

section \<open>Notions used in the properties\<close>

text \<open>
  A canonical path is its list of segments. A path lies within a root when the root's
  segments are a prefix of its own: it is the root or one of its descendants.
\<close>

definition canonical_segments :: "process_env \<Rightarrow> string \<Rightarrow> string list" where
  "canonical_segments env p = resolved_segments (cwd env) p"

definition lies_within :: "process_env \<Rightarrow> string \<Rightarrow> string \<Rightarrow> bool" where
  "lies_within env root p = prefix (canonical_segments env root) (canonical_segments env p)"

definition clean_segments :: "string list \<Rightarrow> bool" where
  "clean_segments segs = list_all (\<lambda>s. s \<noteq> [] \<and> CHR ''/'' \<notin> set s) segs"

fun slashed :: "string list \<Rightarrow> string" where
  "slashed [] = []"
| "slashed (s # ss) = CHR ''/'' # s @ slashed ss"

text \<open>Two deployments used as concrete inputs.\<close>

definition data_env :: process_env where
  "data_env = \<lparr>cwd = ''/srv/app'', homedir = ''/home/u'', platform = ''linux''\<rparr>"

definition data_validator :: PathValidator where
  "data_validator = new_PathValidator data_env ''/data/images''"

definition home_env :: process_env where
  "home_env = \<lparr>cwd = ''/home/u/proj'', homedir = ''/home/u'', platform = ''linux''\<rparr>"

definition home_validator :: PathValidator where
  "home_validator = new_PathValidator home_env ''/home/u/proj/generated_imgs''"

text \<open>Two operations given to the retry wrapper as concrete inputs.\<close>

definition always_failing :: "nat \<Rightarrow> thrown + unit" where
  "always_failing k = Inl (Error ''upstream unavailable'')"

definition invalid_request :: "nat \<Rightarrow> thrown + unit" where
  "invalid_request k = Inl (McpError InvalidParams ''bad argument'')"

text \<open>
  A disk with no file and the usual umask 0o022 = 18, the path of the configuration file,
  and a server configured from the environment.
\<close>

definition empty_disk :: filesystem where
  "empty_disk = \<lparr>files = Map.empty, umask = 18, write_denied = {}, unlink_denied = {},
                  write_failure = (\<lambda>p. FailedWrite ''EACCES: permission denied, open'' None)\<rparr>"

definition configPath :: "process_env \<Rightarrow> string" where
  "configPath env = path_join [cwd env, ''.img-mcp-config.json'']"

definition sample_config :: Config where
  "sample_config = \<lparr>geminiApiKey = ''AIzaSy-secret-key'', model = ''gemini-2.5-flash-image-preview'',
                     defaultFormat = ''png'', outputDirectory = None,
                     maxImageSize = 10485760, maxPromptLength = 4000, maxReferenceImages = 5\<rparr>"

definition env_configured :: ImgMcp where
  "env_configured = new_ImgMcp\<lparr>config := Some sample_config, genAI := Some ''AIzaSy-secret-key'',
                                configSource := environment\<rparr>"

text \<open>
  The index of a running server is well formed: its keys are distinct and every record is
  stored under its own id.
\<close>

definition index_wf :: "(string \<times> ImageMetadata) list \<Rightarrow> bool" where
  "index_wf m = (distinct (map fst m) \<and> list_all (\<lambda>(k, meta). image_id meta = k) m)"

text \<open>
  A server that tracks two images, and a disk on which only the file of the first one
  exists.
\<close>

definition image_a :: ImageMetadata where
  "image_a = \<lparr>image_id = ''a'', filePath = ''/srv/app/generated_imgs/generated-a.png'',
               uri = ''img://image/a'', prompt = ''red circle'', image_type = generated,
               timestamp = ''2025-01-01T00:00:00.000Z'', image_model = ''gemini-2.5-flash-image-preview'',
               image_format = ''png'', image_size = 3, referenceImages = None, parentImageId = None\<rparr>"

definition image_b :: ImageMetadata where
  "image_b = \<lparr>image_id = ''b'', filePath = ''/srv/app/generated_imgs/edited-b.png'',
               uri = ''img://image/b'', prompt = ''make it blue'', image_type = edited,
               timestamp = ''2025-01-02T00:00:00.000Z'', image_model = ''gemini-2.5-flash-image-preview'',
               image_format = ''png'', image_size = 3, referenceImages = None, parentImageId = Some ''a''\<rparr>"

definition two_images :: ImgMcp where
  "two_images = new_ImgMcp\<lparr>config := Some sample_config, genAI := Some ''AIzaSy-secret-key'',
                            configSource := config_file,
                            imageMetadata := [(''a'', image_a), (''b'', image_b)]\<rparr>"

definition disk_with_a :: filesystem where
  "disk_with_a = empty_disk\<lparr>files := [''/srv/app/generated_imgs/generated-a.png'' \<mapsto> (Bytes ''ABC'', 420)]\<rparr>"

text \<open>
  The first part of a response that carries image data, with its position: the part whose
  image an edit stores first.
\<close>

fun firstImagePart :: "part list \<Rightarrow> (nat \<times> string) option" where
  "firstImagePart [] = None"
| "firstImagePart (p # ps) =
     (case part_inlineData p of
        Some inl \<Rightarrow>
          if truthy (inline_data inl) then Some (0, or_else (inline_data inl) [])
          else map_option (\<lambda>(j, d). (Suc j, d)) (firstImagePart ps)
      | None \<Rightarrow> map_option (\<lambda>(j, d). (Suc j, d)) (firstImagePart ps))"

definition partsOf :: "part list option \<Rightarrow> part list" where
  "partsOf response = (case response of None \<Rightarrow> [] | Some parts \<Rightarrow> parts)"

text \<open>The message of the error that a failing persist throws.\<close>

definition persist_failure :: "process_env \<Rightarrow> ImgMcp \<Rightarrow> filesystem \<Rightarrow> string" where
  "persist_failure env st fs = failure_message (write_failure fs (metadataPath env st))"

text \<open>
  An upstream service that answers with a text part and an image part, and the disk of
  before with no room left for the metadata file: a write to it fails with \<open>ENOSPC\<close>
  and leaves an empty file.
\<close>

definition sample_upstream :: upstream where
  "sample_upstream =
     \<lparr>hasGenerateImages = False,
      generateImages = (\<lambda>k. Inr None),
      generateContent = (\<lambda>k. Inr (Some [\<lparr>part_text = Some ''a blue circle'', part_inlineData = None\<rparr>,
                                         \<lparr>part_text = None,
                                          part_inlineData = Some \<lparr>inline_data = Some ''QUJD'',
                                                                   inline_mimeType = Some ''image/png''\<rparr>\<rparr>])),
      base64_decode = (\<lambda>s. ''ABC''),
      clock = (\<lambda>k. \<lparr>isoNow = ''2025-01-03T00:00:00.000Z'', randomId = ''k3x9qz'',
                     isoStamp = ''2025-01-03T00:00:00.001Z''\<rparr>)\<rparr>"

definition full_disk :: filesystem where
  "full_disk =
     disk_with_a\<lparr>write_denied := {''/srv/app/generated_imgs/.metadata.json''},
                 write_failure := (\<lambda>p. FailedWrite ''ENOSPC: no space left on device, write'' (Some []))\<rparr>"

section \<open>Paths: helper lemmas\<close>

lemma startsWith_prefix: "startsWith s p \<longleftrightarrow> prefix p s"
  by (induction s p rule: startsWith.induct) auto

lemma splitOn_nonempty: "splitOn d xs \<noteq> []"
  by (induction xs) (auto split: list.splits)

lemma splitOn_no_sep: "s \<in> set (splitOn d xs) \<Longrightarrow> d \<notin> set s"
  by (induction xs arbitrary: s) (auto split: list.splits if_splits simp: splitOn_nonempty)

lemma clean_segments_iff: "clean_segments segs \<longleftrightarrow> (\<forall>s\<in>set segs. s \<noteq> [] \<and> CHR ''/'' \<notin> set s)"
  by (simp add: clean_segments_def list_all_iff)

lemma normalizeSegs_clean:
  "clean_segments res \<Longrightarrow> (\<forall>s\<in>set ss. CHR ''/'' \<notin> set s) \<Longrightarrow> clean_segments (normalizeSegs a res ss)"
proof (induction a res ss rule: normalizeSegs.induct)
  case (1 a res)
  then show ?case by simp
next
  case (2 a res s ss)
  have bl: "clean_segments (butlast res)"
    using "2.prems"(1) by (auto simp: clean_segments_iff dest: in_set_butlastD)
  have dd: "clean_segments (res @ [''..''])"
    using "2.prems"(1) by (auto simp: clean_segments_iff)
  have sn: "s \<noteq> [] \<Longrightarrow> clean_segments (res @ [s])"
    using "2.prems" by (auto simp: clean_segments_iff)
  show ?case
    using 2 bl dd sn by auto
qed

lemma slashed_join_Cons: "CHR ''/'' # joinWith ''/'' (s # ss) = slashed (s # ss)"
  by (induction ss arbitrary: s) auto

lemma slashed_join: "segs \<noteq> [] \<Longrightarrow> CHR ''/'' # joinWith ''/'' segs = slashed segs"
  by (cases segs) (simp_all only: slashed_join_Cons)

lemma slashed_append: "slashed (a @ c) = slashed a @ slashed c"
  by (induction a) auto

lemma seg_prefix_split:
  assumes "prefix (s @ CHR ''/'' # x) (t @ CHR ''/'' # y)" "CHR ''/'' \<notin> set s" "CHR ''/'' \<notin> set t"
  shows "s = t \<and> prefix x y"
  using assms
proof (induction s arbitrary: t)
  case Nil
  then show ?case by (cases t) auto
next
  case (Cons c s)
  then show ?case by (cases t) auto
qed

lemma slashed_prefix:
  "clean_segments a \<Longrightarrow> clean_segments b \<Longrightarrow>
     prefix (slashed a @ ''/'') (slashed b @ ''/'') \<Longrightarrow> prefix a b"
proof (induction a arbitrary: b)
  case Nil
  then show ?case by simp
next
  case (Cons s a)
  show ?case
  proof (cases b)
    case Nil
    with Cons.prems show ?thesis by (cases s) (auto simp: clean_segments_iff)
  next
    case (Cons t b')
    have ca: "clean_segments a" and cb: "clean_segments b'"
      and ns: "CHR ''/'' \<notin> set s" and nt: "CHR ''/'' \<notin> set t"
      using Cons.prems(1,2) Cons by (auto simp: clean_segments_iff)
    obtain x where x: "slashed a @ ''/'' = CHR ''/'' # x" by (cases a) auto
    obtain y where y: "slashed b' @ ''/'' = CHR ''/'' # y" by (cases b') auto
    from Cons.prems(3) Cons have "prefix (s @ slashed a @ ''/'') (t @ slashed b' @ ''/'')" by simp
    then have "prefix (s @ CHR ''/'' # x) (t @ CHR ''/'' # y)" using x y by simp
    from seg_prefix_split[OF this ns nt] have "s = t" "prefix (slashed a @ ''/'') (slashed b' @ ''/'')"
      using x y by auto
    with Cons.IH[OF ca cb] Cons show ?thesis by simp
  qed
qed

lemma resolve_raw_absolute: "isAbsolute c \<Longrightarrow> snd (resolve_raw c p)"
  by (auto simp: resolve_raw_def isAbsolute_def Let_def split: list.splits)

lemma resolved_segments_clean: "clean_segments (resolved_segments c p)"
proof -
  have "clean_segments []" by (simp add: clean_segments_def)
  then show ?thesis
    unfolding resolved_segments_def
    by (auto split: prod.splits intro!: normalizeSegs_clean dest: splitOn_no_sep)
qed

lemma path_resolve_absolute:
  "isAbsolute c \<Longrightarrow> path_resolve c p = CHR ''/'' # joinWith ''/'' (resolved_segments c p)"
  by (simp add: path_resolve_def resolve_raw_absolute)

lemma within_iff_prefix:
  assumes ca: "clean_segments a" and cb: "clean_segments b" and ne: "a \<noteq> []"
  shows "(startsWith (CHR ''/'' # joinWith ''/'' b) ((CHR ''/'' # joinWith ''/'' a) @ ''/'')
            \<or> CHR ''/'' # joinWith ''/'' b = CHR ''/'' # joinWith ''/'' a) \<longleftrightarrow> prefix a b"
proof (cases b)
  case Nil
  obtain s a' where a: "a = s # a'" using ne by (cases a) auto
  with ca have "s \<noteq> []" by (simp add: clean_segments_iff)
  then obtain c cs where "s = c # cs" by (cases s) auto
  with a Nil ne show ?thesis
    by (simp add: slashed_join startsWith_prefix)
next
  case (Cons t b')
  then have bne: "b \<noteq> []" by simp
  have ja: "CHR ''/'' # joinWith ''/'' a = slashed a" using ne by (rule slashed_join)
  have jb: "CHR ''/'' # joinWith ''/'' b = slashed b" using bne by (rule slashed_join)
  show ?thesis
  proof
    assume "startsWith (CHR ''/'' # joinWith ''/'' b) ((CHR ''/'' # joinWith ''/'' a) @ ''/'')
            \<or> CHR ''/'' # joinWith ''/'' b = CHR ''/'' # joinWith ''/'' a"
    then have "prefix (slashed a @ ''/'') (slashed b) \<or> slashed b = slashed a"
      unfolding ja jb startsWith_prefix .
    then have "prefix (slashed a @ ''/'') (slashed b @ ''/'')"
      by (auto intro: prefix_order.trans)
    then show "prefix a b" by (rule slashed_prefix[OF ca cb])
  next
    assume "prefix a b"
    then obtain c where c: "b = a @ c" by (auto simp: prefix_def)
    have "prefix (slashed a @ ''/'') (slashed b) \<or> slashed b = slashed a"
      unfolding c slashed_append by (cases c) auto
    then show "startsWith (CHR ''/'' # joinWith ''/'' b) ((CHR ''/'' # joinWith ''/'' a) @ ''/'')
            \<or> CHR ''/'' # joinWith ''/'' b = CHR ''/'' # joinWith ''/'' a"
      unfolding ja jb startsWith_prefix .
  qed
qed

lemma isAllowed_iff:
  assumes "isAbsolute (cwd env)"
    and "\<forall>R\<in>set (allowedDirectories pv). canonical_segments env R \<noteq> []"
  shows "isAllowed env pv (path_resolve (cwd env) P) \<longleftrightarrow>
         (\<exists>R\<in>set (allowedDirectories pv). lies_within env R P)"
  unfolding isAllowed_def list_ex_iff Let_def path_resolve_absolute[OF assms(1)] lies_within_def
  using assms(2) within_iff_prefix[OF resolved_segments_clean resolved_segments_clean]
  unfolding canonical_segments_def
  by blast

lemmas path_eval =
  validateAndSanitize_def isAllowed_def path_resolve_def resolved_segments_def resolve_raw_def
  isAbsolute_def traversal_message_def not_allowed_message_def new_PathValidator_def
  canonical_segments_def lies_within_def

section \<open>Paths: the claims\<close>

text \<open>
  C10. Every path whose resolved absolute form contains the two characters \<open>..\<close>
  anywhere is rejected with the directory-traversal error, whatever the allowed roots are.
  The witness is the file name \<open>photo..png\<close> directly inside the allowed root
  \<open>/data/images\<close>: it has no parent-directory segment and lies within the root.
\<close>

theorem C10_dotdot_substring_rejected:
  assumes "str_includes (path_resolve (cwd env) rawPath) ''..''"
  shows "validateAndSanitize env pv rawPath =
           Inl (McpError InvalidParams
                  (''Path contains directory traversal: '' @ rawPath
                     @ ''. Paths must be within allowed directories.''))"
  using assms by (simp add: validateAndSanitize_def traversal_message_def)

theorem C10_witness:
  "str_includes (path_resolve (cwd data_env) ''/data/images/photo..png'') ''..''
   \<and> ''..'' \<notin> set (splitOn CHR ''/'' ''/data/images/photo..png'')
   \<and> lies_within data_env ''/data/images'' ''/data/images/photo..png''
   \<and> validateAndSanitize data_env data_validator ''/data/images/photo..png'' =
         Inl (McpError InvalidParams
                ''Path contains directory traversal: /data/images/photo..png. Paths must be within allowed directories.'')"
proof -
  have h: "str_includes (path_resolve (cwd data_env) ''/data/images/photo..png'') ''..''"
    by (simp add: path_eval data_env_def)
  have s: "''..'' \<notin> set (splitOn CHR ''/'' ''/data/images/photo..png'')"
    by simp
  have w: "lies_within data_env ''/data/images'' ''/data/images/photo..png''"
    by (simp add: path_eval data_env_def)
  show ?thesis
    using h s w C10_dotdot_substring_rejected [OF h, of data_validator] by simp
qed

text \<open>
  C1. The claim: every input with a literal \<open>..\<close> segment is rejected. The code tests
  the resolved path only, where \<open>path.resolve\<close> has already removed the segments: with
  the working directory \<open>/home/u/proj\<close> and the home directory \<open>/home/u\<close>, the
  input \<open>a/../../etc/passwd\<close> of the claim is accepted and returned as
  \<open>/home/u/etc/passwd\<close>.
\<close>

theorem C1_traversal_input_accepted:
  "''..'' \<in> set (splitOn CHR ''/'' ''a/../../etc/passwd'')
   \<and> validateAndSanitize home_env home_validator ''a/../../etc/passwd'' = Inr ''/home/u/etc/passwd''"
  by (simp add: path_eval home_env_def home_validator_def)

text \<open>
  C3. The claim: the message of a rejection holds no allowed root and no part of the
  rejected path. The message of the code holds both: the rejected path as given, and the
  list of the allowed directories.
\<close>

theorem C3_message_leaks_roots_and_path:
  "validateAndSanitize data_env data_validator ''/etc/secret/x.png'' =
     Inl (McpError InvalidParams
            ''Path not allowed: /etc/secret/x.png. Must be within: /data/images, /srv/app, /home/u'')
   \<and> str_includes ''Path not allowed: /etc/secret/x.png. Must be within: /data/images, /srv/app, /home/u''
         ''/data/images''
   \<and> str_includes ''Path not allowed: /etc/secret/x.png. Must be within: /data/images, /srv/app, /home/u''
         ''/etc/secret''"
  by (simp add: path_eval data_env_def data_validator_def)

text \<open>
  C2. The claim: validation succeeds exactly when the canonical path is an allowed root or
  a descendant of one. It fails for \<open>/data/images/photo..png\<close>, a descendant of the root
  \<open>/data/images\<close> that is rejected for the two dots in its name.
\<close>

theorem C2_counterexample:
  "lies_within data_env ''/data/images'' ''/data/images/photo..png''
   \<and> validateAndSanitize data_env data_validator ''/data/images/photo..png'' =
         Inl (McpError InvalidParams
                ''Path contains directory traversal: /data/images/photo..png. Paths must be within allowed directories.'')"
  by (simp add: path_eval data_env_def data_validator_def)

text \<open>
  C2, amended. With an absolute working directory and allowed roots other than the
  file-system root, validation succeeds exactly when the resolved path has no substring
  \<open>..\<close> and is an allowed root or a descendant of one, segment by segment; it then
  returns the resolved path. With the root \<open>/data/images\<close>, \<open>/data/images/sub/x\<close> is
  accepted and \<open>/data/images-other/x\<close> is rejected (the witness).
\<close>

theorem C2_containment_amended:
  assumes "isAbsolute (cwd env)"
    and "\<forall>R\<in>set (allowedDirectories pv). canonical_segments env R \<noteq> []"
  shows "((\<exists>r. validateAndSanitize env pv P = Inr r) \<longleftrightarrow>
            (\<not> str_includes (path_resolve (cwd env) P) ''..''
             \<and> (\<exists>R\<in>set (allowedDirectories pv). lies_within env R P)))
         \<and> (\<forall>r. validateAndSanitize env pv P = Inr r \<longrightarrow> r = path_resolve (cwd env) P)"
  using isAllowed_iff[OF assms, of P]
  by (auto simp: validateAndSanitize_def Let_def split: if_splits)

theorem C2_witness:
  "isAbsolute (cwd data_env)
   \<and> list_all (\<lambda>R. canonical_segments data_env R \<noteq> []) (allowedDirectories data_validator)
   \<and> lies_within data_env ''/data/images'' ''/data/images/sub/x''
   \<and> validateAndSanitize data_env data_validator ''/data/images/sub/x'' = Inr ''/data/images/sub/x''
   \<and> \<not> (\<exists>R\<in>set (allowedDirectories data_validator). lies_within data_env R ''/data/images-other/x'')
   \<and> validateAndSanitize data_env data_validator ''/data/images-other/x'' =
         Inl (McpError InvalidParams
                ''Path not allowed: /data/images-other/x. Must be within: /data/images, /srv/app, /home/u'')"
proof -
  have a: "isAbsolute (cwd data_env)"
    by (simp add: data_env_def isAbsolute_def)
  have b: "\<forall>R\<in>set (allowedDirectories data_validator). canonical_segments data_env R \<noteq> []"
    by (simp add: path_eval data_env_def data_validator_def)
  have w: "lies_within data_env ''/data/images'' ''/data/images/sub/x''"
    by (simp add: path_eval data_env_def)
  have n: "\<not> (\<exists>R\<in>set (allowedDirectories data_validator). lies_within data_env R ''/data/images-other/x'')"
    by (simp add: path_eval data_env_def data_validator_def)
  have d1: "\<not> str_includes (path_resolve (cwd data_env) ''/data/images/sub/x'') ''..''"
    by (simp add: path_eval data_env_def)
  have r1: "path_resolve (cwd data_env) ''/data/images/sub/x'' = ''/data/images/sub/x''"
    by (simp add: path_eval data_env_def)
  have m: "''/data/images'' \<in> set (allowedDirectories data_validator)"
    by (simp add: data_validator_def new_PathValidator_def)
  from C2_containment_amended [OF a b, of "''/data/images/sub/x''"] d1 w m r1
  have acc: "validateAndSanitize data_env data_validator ''/data/images/sub/x'' = Inr ''/data/images/sub/x''"
    by auto
  from C2_containment_amended [OF a b, of "''/data/images-other/x''"] n
  have "\<forall>r. validateAndSanitize data_env data_validator ''/data/images-other/x'' \<noteq> Inr r"
    by blast
  moreover have "validateAndSanitize data_env data_validator ''/data/images-other/x'' =
      Inl (McpError InvalidParams
             ''Path not allowed: /data/images-other/x. Must be within: /data/images, /srv/app, /home/u'')"
    by (simp add: path_eval data_env_def data_validator_def)
  ultimately show ?thesis using a b w n acc by (simp add: list_all_iff)
qed

section \<open>Retry: helper lemmas\<close>

lemma retry_loop_exhausted:
  "maxRetries < attempt \<Longrightarrow>
     retry_loop fn maxRetries initialDelay attempt (Some e) calls delays = (Inl e, calls, delays)"
  by (subst retry_loop.simps) simp

lemma retry_loop_always_failing:
  assumes fails: "\<forall>k. fn k = Inl (errs k)" and retryable: "\<forall>k. \<not> nonRetryable (errs k)"
  shows "n = nat (maxRetries - attempt) \<Longrightarrow> 0 \<le> attempt \<Longrightarrow> attempt \<le> maxRetries \<Longrightarrow>
     retry_loop fn maxRetries initialDelay attempt lastError (nat attempt) delays =
       (Inl (toError (errs (nat maxRetries))), Suc (nat maxRetries),
        delays @ map (\<lambda>k. initialDelay * 2 ^ k) [nat attempt..<nat maxRetries])"
proof (induction n arbitrary: attempt lastError delays)
  case 0
  then have eq: "attempt = maxRetries" by simp
  have "retry_loop fn maxRetries initialDelay maxRetries lastError (nat maxRetries) delays =
          retry_loop fn maxRetries initialDelay (maxRetries + 1) (Some (toError (errs (nat maxRetries))))
            (Suc (nat maxRetries)) delays"
    using fails retryable by (subst retry_loop.simps) simp
  also have "\<dots> = (Inl (toError (errs (nat maxRetries))), Suc (nat maxRetries), delays)"
    by (rule retry_loop_exhausted) simp
  finally show ?case using eq by simp
next
  case (Suc n)
  then have lt: "attempt < maxRetries" by simp
  have n: "n = nat (maxRetries - (attempt + 1))" using Suc.prems by simp
  have s: "Suc (nat attempt) = nat (attempt + 1)" using Suc.prems by simp
  have "retry_loop fn maxRetries initialDelay attempt lastError (nat attempt) delays =
          retry_loop fn maxRetries initialDelay (attempt + 1) (Some (toError (errs (nat attempt))))
            (nat (attempt + 1)) (delays @ [initialDelay * 2 ^ nat attempt])"
    using fails retryable lt s by (subst retry_loop.simps) simp
  also have "\<dots> = (Inl (toError (errs (nat maxRetries))), Suc (nat maxRetries),
        (delays @ [initialDelay * 2 ^ nat attempt]) @ map (\<lambda>k. initialDelay * 2 ^ k) [nat (attempt + 1)..<nat maxRetries])"
    using Suc.IH[OF n] Suc.prems lt by simp
  also have "[nat attempt..<nat maxRetries] = nat attempt # [nat (attempt + 1)..<nat maxRetries]"
    using lt Suc.prems s by (simp add: upt_conv_Cons)
  then have "(delays @ [initialDelay * 2 ^ nat attempt]) @ map (\<lambda>k. initialDelay * 2 ^ k) [nat (attempt + 1)..<nat maxRetries]
      = delays @ map (\<lambda>k. initialDelay * 2 ^ k) [nat attempt..<nat maxRetries]"
    by simp
  finally show ?case .
qed

lemma retry_loop_nonRetryable:
  "attempt \<le> maxRetries \<Longrightarrow> fn calls = Inl e \<Longrightarrow> nonRetryable e \<Longrightarrow>
     retry_loop fn maxRetries initialDelay attempt lastError calls delays = (Inl e, Suc calls, delays)"
  by (subst retry_loop.simps) simp

section \<open>Retry: the claim\<close>

text \<open>
  C5. The claim: an operation that always fails with a retryable failure is invoked exactly
  as many times as the second parameter says. With the parameter 3 the code invokes it
  4 times, after waiting 1000, 2000 and 4000.
\<close>

theorem C5_counterexample:
  "retryWithBackoff always_failing 3 1000 = (Inl (Error ''upstream unavailable''), 4, [1000, 2000, 4000])
   \<and> fst (snd (retryWithBackoff always_failing 3 1000)) \<noteq> 3"
  unfolding retryWithBackoff_def
  by (simp add: always_failing_def nonRetryable_def toError_def)

text \<open>
  C5, amended. The second parameter counts retries: an operation that always fails with a
  retryable failure is invoked \<open>maxRetries + 1\<close> times, the delay before retry \<open>k\<close>
  (from 0 to \<open>maxRetries - 1\<close>) is \<open>initialDelay * 2 ^ k\<close>, and the last failure is
  propagated (a thrown value that is no \<open>Error\<close> wrapped into one). A failure with the
  code \<open>InvalidParams\<close> or \<open>InvalidRequest\<close> is propagated after one invocation.
\<close>

theorem C5_retry_amended:
  assumes "0 \<le> maxRetries"
  shows "((\<forall>k. fn k = Inl (errs k)) \<and> (\<forall>k. \<not> nonRetryable (errs k)) \<longrightarrow>
            retryWithBackoff fn maxRetries initialDelay =
              (Inl (toError (errs (nat maxRetries))), nat maxRetries + 1,
               map (\<lambda>k. initialDelay * 2 ^ k) [0..<nat maxRetries]))
         \<and> (fn 0 = Inl e \<and> nonRetryable e \<longrightarrow>
              retryWithBackoff fn maxRetries initialDelay = (Inl e, 1, []))"
  using assms retry_loop_always_failing[of fn errs "nat maxRetries" maxRetries 0 initialDelay None "[]"]
    retry_loop_nonRetryable[of 0 maxRetries fn 0 e initialDelay None "[]"]
  by (auto simp: retryWithBackoff_def)

theorem C5_witness:
  "(0::int) \<le> 3
   \<and> (\<forall>k. always_failing k = Inl (Error ''upstream unavailable''))
   \<and> (\<forall>k::nat. \<not> nonRetryable (Error ''upstream unavailable''))
   \<and> retryWithBackoff always_failing 3 1000 = (Inl (Error ''upstream unavailable''), 4, [1000, 2000, 4000])
   \<and> invalid_request 0 = Inl (McpError InvalidParams ''bad argument'')
   \<and> nonRetryable (McpError InvalidParams ''bad argument'')
   \<and> retryWithBackoff invalid_request 3 1000 = (Inl (McpError InvalidParams ''bad argument''), 1, [])"
proof -
  have f: "\<forall>k. always_failing k = Inl (Error ''upstream unavailable'')"
    by (simp add: always_failing_def)
  have r: "\<forall>k::nat. \<not> nonRetryable (Error ''upstream unavailable'')"
    by (simp add: nonRetryable_def)
  have i: "invalid_request 0 = Inl (McpError InvalidParams ''bad argument'')"
    by (simp add: invalid_request_def)
  have n: "nonRetryable (McpError InvalidParams ''bad argument'')"
    by (simp add: nonRetryable_def)
  have u: "[0..<3] = [0, 1, 2::nat]" by (simp add: upt_rec)
  from C5_retry_amended [of 3 always_failing "\<lambda>k. Error ''upstream unavailable''" 1000] f r u
  have a: "retryWithBackoff always_failing 3 1000 = (Inl (Error ''upstream unavailable''), 4, [1000, 2000, 4000])"
    by (simp add: toError_def)
  from C5_retry_amended [of 3 invalid_request _ 1000 "McpError InvalidParams ''bad argument''"] i n
  have b: "retryWithBackoff invalid_request 3 1000 = (Inl (McpError InvalidParams ''bad argument''), 1, [])"
    by simp
  show ?thesis using f r i n a b by simp
qed

section \<open>Configuration snapshots\<close>

lemma fs_writeFile_ok:
  "p \<notin> write_denied fs \<Longrightarrow>
     fs_writeFile fs p d mo = Inr (fs\<lparr>files := (files fs)(p \<mapsto> (d, mode_after_write fs p mo))\<rparr>)"
  by (simp add: fs_writeFile_def)

lemma fs_writeFile_denied:
  "p \<in> write_denied fs \<Longrightarrow>
     fs_writeFile fs p d mo =
       Inl (Error (failure_message (write_failure fs p)),
            fs\<lparr>files := (files fs)(p := after_failed_write fs p mo)\<rparr>)"
  by (simp add: fs_writeFile_def)

text \<open>
  C4. The claim: no persisted snapshot holds the full credential. The snapshot written by
  \<open>configure_gemini_token\<close> holds it.
\<close>

theorem C4_counterexample:
  "snd (snd (configureGeminiToken data_env ''AIzaSy-secret-key'' new_ImgMcp empty_disk)) =
     empty_disk\<lparr>files := [''/srv/app/.img-mcp-config.json'' \<mapsto> (ConfigDoc sample_config, 420)]\<rparr>
   \<and> geminiApiKey sample_config = ''AIzaSy-secret-key''"
  by (simp add: configureGeminiToken_def saveConfig_def new_ImgMcp_def empty_disk_def data_env_def
      fs_writeFile_def mode_after_write_def path_join_def path_normalize_def isAbsolute_def
      getImagesDirectory_def defaultImagesDirectory_def Let_def sample_config_def)


text \<open>
  C4, amended. Where the configuration file can be written, \<open>saveConfig\<close> stores the
  configuration with the credential replaced by \<open>[REDACTED]\<close> when the source is the
  environment, and unchanged, credential included, for any other source; the snapshot
  written by \<open>configure_gemini_token\<close>, which sets the source to the configuration file
  first, holds the credential given.
\<close>

theorem C4_saveConfig_amended:
  assumes "configPath env \<notin> write_denied fs"
  shows "(config st = Some c \<longrightarrow>
            (\<exists>fs'. saveConfig env st fs = Inr fs'
               \<and> map_option fst (files fs' (configPath env)) =
                   Some (ConfigDoc (if configSource st = environment
                                    then c\<lparr>geminiApiKey := ''[REDACTED]''\<rparr> else c))))
         \<and> (apiKey \<noteq> [] \<longrightarrow>
            (\<exists>r st' fs' c'. configureGeminiToken env apiKey st fs = (Inr r, st', fs')
               \<and> map_option fst (files fs' (configPath env)) = Some (ConfigDoc c')
               \<and> geminiApiKey c' = apiKey))"
proof (intro conjI impI)
  assume c: "config st = Some c"
  from c
  show "\<exists>fs'. saveConfig env st fs = Inr fs'
               \<and> map_option fst (files fs' (configPath env)) =
                   Some (ConfigDoc (if configSource st = environment
                                    then c\<lparr>geminiApiKey := ''[REDACTED]''\<rparr> else c))"
    by (simp add: saveConfig_def Let_def configPath_def[symmetric] fs_writeFile_ok[OF assms])
next
  assume k: "apiKey \<noteq> []"
  from k show "\<exists>r st' fs' c'. configureGeminiToken env apiKey st fs = (Inr r, st', fs')
               \<and> map_option fst (files fs' (configPath env)) = Some (ConfigDoc c')
               \<and> geminiApiKey c' = apiKey"
    by (simp add: configureGeminiToken_def saveConfig_def Let_def configPath_def[symmetric]
        fs_writeFile_ok[OF assms])
qed

theorem C4_witness:
  "configPath data_env \<notin> write_denied empty_disk
   \<and> config env_configured = Some sample_config
   \<and> saveConfig data_env env_configured empty_disk =
        Inr (empty_disk\<lparr>files := [''/srv/app/.img-mcp-config.json'' \<mapsto>
               (ConfigDoc (sample_config\<lparr>geminiApiKey := ''[REDACTED]''\<rparr>), 420)]\<rparr>)
   \<and> saveConfig data_env (env_configured\<lparr>configSource := config_file\<rparr>) empty_disk =
        Inr (empty_disk\<lparr>files := [''/srv/app/.img-mcp-config.json'' \<mapsto> (ConfigDoc sample_config, 420)]\<rparr>)"
proof -
  have p: "configPath data_env = ''/srv/app/.img-mcp-config.json''"
    by (simp add: configPath_def data_env_def path_join_def path_normalize_def isAbsolute_def)
  have d: "configPath data_env \<notin> write_denied empty_disk"
    by (simp add: empty_disk_def)
  have c: "config env_configured = Some sample_config"
    by (simp add: env_configured_def)
  have m: "mode_after_write empty_disk ''/srv/app/.img-mcp-config.json'' None = 420"
    by (simp add: mode_after_write_def empty_disk_def)
  have e: "saveConfig data_env env_configured empty_disk =
        Inr (empty_disk\<lparr>files := [''/srv/app/.img-mcp-config.json'' \<mapsto>
               (ConfigDoc (sample_config\<lparr>geminiApiKey := ''[REDACTED]''\<rparr>), 420)]\<rparr>)"
    using d m p c
    by (simp add: saveConfig_def configPath_def[symmetric] fs_writeFile_ok env_configured_def empty_disk_def)
  have g: "saveConfig data_env (env_configured\<lparr>configSource := config_file\<rparr>) empty_disk =
        Inr (empty_disk\<lparr>files := [''/srv/app/.img-mcp-config.json'' \<mapsto> (ConfigDoc sample_config, 420)]\<rparr>)"
    using d m p c
    by (simp add: saveConfig_def configPath_def[symmetric] fs_writeFile_ok env_configured_def empty_disk_def)
  show ?thesis using d c e g C4_saveConfig_amended [OF d, of env_configured sample_config] by simp
qed

section \<open>The metadata store\<close>

lemma metadataPath_two_images: "metadataPath data_env two_images = ''/srv/app/generated_imgs/.metadata.json''"
  by (simp add: metadataPath_def getImagesDirectory_def defaultImagesDirectory_def two_images_def new_ImgMcp_def sample_config_def
       data_env_def path_join_def path_normalize_def isAbsolute_def)

lemma metadataPath_new: "metadataPath data_env new_ImgMcp = ''/srv/app/generated_imgs/.metadata.json''"
  by (simp add: metadataPath_def getImagesDirectory_def defaultImagesDirectory_def new_ImgMcp_def
       data_env_def path_join_def path_normalize_def isAbsolute_def)

lemma saveMetadata_two_images: "saveMetadata data_env two_images disk_with_a =
     Inr (disk_with_a\<lparr>files := (files disk_with_a)(''/srv/app/generated_imgs/.metadata.json'' \<mapsto>
            (MetadataDoc [image_a, image_b], 420))\<rparr>)"
  unfolding saveMetadata_def metadataPath_two_images
  by (simp add: fs_writeFile_def mode_after_write_def disk_with_a_def empty_disk_def
      Map_values_def two_images_def)

lemma imageMetadata_two_images: "imageMetadata two_images = [(''a'', image_a), (''b'', image_b)]"
  by (simp add: two_images_def)

lemma index_wf_two_images: "index_wf (imageMetadata two_images)"
  by (simp add: imageMetadata_two_images index_wf_def image_a_def image_b_def)

lemma update_fresh: "k \<notin> fst ` set m \<Longrightarrow> AList.update k v m = m @ [(k, v)]"
  by (induction m) auto

lemma index_wf_Nil: "index_wf []"
  by (simp add: index_wf_def)

lemma index_wf_iff:
  "index_wf m \<longleftrightarrow> distinct (map fst m) \<and> (\<forall>(k, meta)\<in>set m. image_id meta = k)"
  by (simp add: index_wf_def list_all_iff)

lemma loadMetadata_loop_filter:
  "distinct (map fst idx) \<Longrightarrow> (\<forall>(k, meta)\<in>set idx. image_id meta = k) \<Longrightarrow>
   fst ` set acc \<inter> fst ` set idx = {} \<Longrightarrow>
     loadMetadata_loop fs (map snd idx) acc =
       acc @ filter (\<lambda>(k, meta). fs_access fs (filePath meta)) idx"
proof (induction idx arbitrary: acc)
  case Nil
  then show ?case by simp
next
  case (Cons e idx)
  obtain k meta where e: "e = (k, meta)" by (cases e)
  from Cons.prems e have idk: "image_id meta = k" and fresh: "k \<notin> fst ` set acc"
    and d: "distinct (map fst idx)" and r: "\<forall>(k, meta)\<in>set idx. image_id meta = k"
    and kn: "k \<notin> fst ` set idx" and dis: "fst ` set acc \<inter> fst ` set idx = {}"
    by auto
  show ?case
  proof (cases "fs_access fs (filePath meta)")
    case True
    have dis': "fst ` set (acc @ [(k, meta)]) \<inter> fst ` set idx = {}"
      using dis kn by auto
    from True show ?thesis
      using Cons.IH[OF d r dis'] e idk fresh by (simp add: Map_set_def update_fresh)
  next
    case False
    then show ?thesis
      using Cons.IH[OF d r dis] e by simp
  qed
qed

text \<open>
  The index is well formed from the start and stays so: the empty index is, and loading
  the metadata file and every tool call keep it.
\<close>

lemma set_update_cases:
  "(a, b) \<in> set (AList.update k v m) \<Longrightarrow> (a, b) = (k, v) \<or> (a, b) \<in> set m"
  by (induction m) (auto split: if_splits)

lemma index_wf_Map_set:
  assumes "index_wf m" and "image_id meta = k"
  shows "index_wf (Map_set k meta m)"
proof -
  have "distinct (map fst (AList.update k meta m))"
    using assms(1) by (simp add: index_wf_iff distinct_update)
  moreover have "\<forall>(a, b)\<in>set (AList.update k meta m). image_id b = a"
    using assms by (auto simp: index_wf_iff dest!: set_update_cases)
  ultimately show ?thesis by (simp add: index_wf_iff Map_set_def)
qed

lemma index_wf_Map_delete:
  assumes "index_wf m"
  shows "index_wf (Map_delete k m)"
proof -
  have "distinct (map fst (AList.delete k m))"
    using assms by (simp only: index_wf_iff distinct_delete)
  moreover have "set (AList.delete k m) \<subseteq> set m"
    by (auto simp: AList.delete_eq)
  ultimately show ?thesis using assms by (auto simp: index_wf_iff Map_delete_def)
qed

lemma index_wf_loadMetadata_loop:
  "index_wf m \<Longrightarrow> index_wf (loadMetadata_loop fs arr m)"
  by (induction arr arbitrary: m) (auto intro: index_wf_Map_set)

lemma index_wf_loadMetadata:
  "index_wf (imageMetadata st) \<Longrightarrow> index_wf (imageMetadata (loadMetadata env st fs))"
  by (auto simp: loadMetadata_def index_wf_loadMetadata_loop split: sum.splits file_content.splits)

lemma index_wf_editParts:
  "index_wf (imageMetadata (cur_state acc)) \<Longrightarrow>
     index_wf (imageMetadata (cur_state (snd (editParts env up ctx k ps acc))))"
proof (induction ps arbitrary: k acc)
  case Nil
  then show ?case by simp
next
  case (Cons p ps)
  have id: "\<And>d. image_id (editedMetadata up ctx k d) = imageIdOf (clock up k)"
    by (simp add: editedMetadata_def Let_def)
  show ?case
    using Cons.prems
    by (auto simp: Let_def id split: option.splits sum.splits
        intro!: Cons.IH index_wf_Map_set)
qed

lemma index_wf_configureGeminiToken:
  "index_wf (imageMetadata st) \<Longrightarrow>
     index_wf (imageMetadata (fst (snd (configureGeminiToken env k st fs))))"
  by (auto simp: configureGeminiToken_def Let_def split: sum.splits)

lemma index_wf_deleteImage:
  "index_wf (imageMetadata st) \<Longrightarrow> index_wf (imageMetadata (fst (snd (deleteImage env i st fs))))"
  by (auto simp: deleteImage_def Let_def index_wf_Map_delete split: option.splits sum.splits)

lemma index_wf_storeGenerated:
  "index_wf (imageMetadata st) \<Longrightarrow>
     index_wf (imageMetadata (fst (snd (storeGenerated env up p m f d st fs))))"
  by (auto simp: storeGenerated_def Let_def generatedMetadata_def split: sum.splits
      intro!: index_wf_Map_set)

lemma index_wf_generateImage_try:
  assumes "index_wf (imageMetadata st)"
  shows "index_wf (imageMetadata (fst (snd (generateImage_try env up p m f st fs))))"
proof (cases "fs_mkdir fs (getImagesDirectory env st)")
  case (Inl e)
  then show ?thesis using assms by (simp add: generateImage_try_def)
next
  case (Inr fs0)
  show ?thesis
  proof (cases "callUpstream up m f")
    case (Inl e)
    then show ?thesis using assms Inr by (simp add: generateImage_try_def)
  next
    case (Inr res)
    obtain a b c where res: "res = (a, b, c)" by (cases res)
    show ?thesis
    proof (cases "truthy b")
      case False
      then show ?thesis
        using assms Inr res \<open>fs_mkdir fs (getImagesDirectory env st) = Inr fs0\<close>
        by (simp add: generateImage_try_def)
    next
      case True
      obtain r st' fs' where s: "storeGenerated env up p m f (or_else b []) st fs0 = (r, st', fs')"
        by (cases "storeGenerated env up p m f (or_else b []) st fs0")
      from index_wf_storeGenerated[OF assms, of env up p m f "or_else b []" fs0] s
      have "index_wf (imageMetadata st')" by simp
      then show ?thesis
        using True Inr res s \<open>fs_mkdir fs (getImagesDirectory env st) = Inr fs0\<close>
        by (cases r) (simp_all add: generateImage_try_def)
    qed
  qed
qed

lemma index_wf_generateImage:
  assumes "index_wf (imageMetadata st)"
  shows "index_wf (imageMetadata (fst (snd (generateImage env up p m f st fs))))"
proof -
  obtain r st' fs' where t: "generateImage_try env up p (selectModel st m) (selectFormat st f) st fs = (r, st', fs')"
    by (cases "generateImage_try env up p (selectModel st m) (selectFormat st f) st fs")
  from index_wf_generateImage_try[OF assms, of env up p "selectModel st m" "selectFormat st f" fs] t
  have "index_wf (imageMetadata st')" by simp
  then show ?thesis
    using assms t by (cases r) (simp_all add: generateImage_def)
qed

lemma index_wf_editImage_try:
  assumes "index_wf (imageMetadata st)"
  shows "index_wf (imageMetadata (fst (snd (editImage_try env up i v p r st fs))))"
proof (cases "fst (retryWithBackoff (generateContent up) 3 1000)")
  case (Inl e)
  then show ?thesis using assms by (simp add: editImage_try_def)
next
  case (Inr response)
  show ?thesis
  proof (cases "fs_mkdir fs (getImagesDirectory env st)")
    case (Inl e)
    then show ?thesis using assms Inr by (simp add: editImage_try_def)
  next
    case mk: (Inr fs0)
    let ?start = "\<lparr>cur_state = st, cur_fs = fs0, textContent = [], savedFiles = [], content = []\<rparr>"
    let ?ctx = "editContext env st p v r"
    obtain err acc where e: "editParts env up ?ctx 0 (case response of None \<Rightarrow> [] | Some parts \<Rightarrow> parts) ?start = (err, acc)"
      by (cases "editParts env up ?ctx 0 (case response of None \<Rightarrow> [] | Some parts \<Rightarrow> parts) ?start")
    from index_wf_editParts[of ?start env up ?ctx 0 "case response of None \<Rightarrow> [] | Some parts \<Rightarrow> parts"] assms e
    have "index_wf (imageMetadata (cur_state acc))" by simp
    then show ?thesis
      using Inr mk e by (cases err) (simp_all add: editImage_try_def Let_def)
  qed
qed

lemma index_wf_editImage:
  assumes "index_wf (imageMetadata st)"
  shows "index_wf (imageMetadata (fst (snd (editImage env up i p r st fs))))"
proof -
  let ?pv = "validatorInForce env st"
  let ?st0 = "st\<lparr>pathValidator := Some ?pv\<rparr>"
  have w0: "index_wf (imageMetadata ?st0)" using assms by simp
  have t: "\<And>v refs. index_wf (imageMetadata (fst (snd (
      case editImage_try env up i v p refs ?st0 fs of
        (Inl e, st', fs') \<Rightarrow>
          (Inl (McpError InternalError (''Failed to edit image: '' @ error_message e)), st', fs')
      | (Inr result, st', fs') \<Rightarrow> (Inr result, st', fs')))))"
  proof -
    fix v refs
    obtain res st' fs' where e: "editImage_try env up i v p refs ?st0 fs = (res, st', fs')"
      by (cases "editImage_try env up i v p refs ?st0 fs")
    from index_wf_editImage_try[OF w0, of env up i v p refs fs] e
    have "index_wf (imageMetadata st')" by simp
    then show "index_wf (imageMetadata (fst (snd (
      case editImage_try env up i v p refs ?st0 fs of
        (Inl e, st', fs') \<Rightarrow>
          (Inl (McpError InternalError (''Failed to edit image: '' @ error_message e)), st', fs')
      | (Inr result, st', fs') \<Rightarrow> (Inr result, st', fs')))))"
      using e by (cases res) simp_all
  qed
  show ?thesis
    using assms w0 t
    by (auto simp: editImage_def Let_def split: sum.splits if_splits)
qed

lemma index_wf_callTool:
  assumes "index_wf (imageMetadata st)"
  shows "index_wf (imageMetadata (fst (snd (callTool env up request st fs))))"
proof -
  have wrap: "\<And>res. index_wf (imageMetadata (fst (snd res))) \<Longrightarrow>
     index_wf (imageMetadata (fst (snd (case res of
        (Inl (McpError c m), st', fs') \<Rightarrow> (Inl (McpError c m), st', fs')
      | (Inl e, st', fs') \<Rightarrow>
          (Inl (McpError InternalError (''Tool execution failed: '' @ error_message e)), st', fs')
      | (Inr result, st', fs') \<Rightarrow> (Inr result, st', fs')))))"
    by (auto split: prod.splits sum.splits thrown.splits)
  show ?thesis
    unfolding callTool_def
    by (rule wrap, cases request)
       (simp_all add: assms index_wf_configureGeminiToken index_wf_generateImage
          index_wf_editImage index_wf_deleteImage)
qed

text \<open>
  C6. Persisting a well-formed index and loading it into a fresh server, with the same
  metadata path, gives the index restricted to the records whose image files exist when
  it is loaded: the same ids, in the same order, each with the record it had. Whatever
  happens to the disk between the two is allowed, as long as the metadata file stays.
\<close>

theorem C6_roundtrip:
  assumes wf: "index_wf (imageMetadata st)"
    and saved: "saveMetadata env st fs = Inr fs1"
    and kept: "files fs2 (metadataPath env st) = files fs1 (metadataPath env st)"
    and fresh: "imageMetadata st' = []"
    and same: "metadataPath env st' = metadataPath env st"
  shows "imageMetadata (loadMetadata env st' fs2) =
           filter (\<lambda>(k, meta). fs_access fs2 (filePath meta)) (imageMetadata st)"
proof -
  from saved have "\<exists>m. files fs1 (metadataPath env st) = Some (MetadataDoc (map snd (imageMetadata st)), m)"
    by (auto simp: saveMetadata_def fs_writeFile_def Map_values_def Let_def split: if_splits)
  with kept same have rd: "fs_readFile fs2 (metadataPath env st') = Inr (MetadataDoc (map snd (imageMetadata st)))"
    by (auto simp: fs_readFile_def)
  from wf have "loadMetadata_loop fs2 (map snd (imageMetadata st)) [] =
      [] @ filter (\<lambda>(k, meta). fs_access fs2 (filePath meta)) (imageMetadata st)"
    by (intro loadMetadata_loop_filter) (auto simp: index_wf_iff)
  with rd fresh show ?thesis
    by (simp add: loadMetadata_def)
qed


theorem C6_witness:
  "index_wf (imageMetadata two_images)
   \<and> saveMetadata data_env two_images disk_with_a =
        Inr (disk_with_a\<lparr>files := (files disk_with_a)(''/srv/app/generated_imgs/.metadata.json'' \<mapsto>
               (MetadataDoc [image_a, image_b], 420))\<rparr>)
   \<and> imageMetadata new_ImgMcp = []
   \<and> metadataPath data_env new_ImgMcp = metadataPath data_env two_images
   \<and> fs_access disk_with_a (filePath image_a) \<and> \<not> fs_access disk_with_a (filePath image_b)
   \<and> imageMetadata (loadMetadata data_env new_ImgMcp
          (disk_with_a\<lparr>files := (files disk_with_a)(''/srv/app/generated_imgs/.metadata.json'' \<mapsto>
               (MetadataDoc [image_a, image_b], 420))\<rparr>)) = [(''a'', image_a)]"
proof -
  have f: "imageMetadata new_ImgMcp = []" by (simp add: new_ImgMcp_def)
  have e: "metadataPath data_env new_ImgMcp = metadataPath data_env two_images"
    by (simp add: metadataPath_two_images metadataPath_new)
  have a: "fs_access disk_with_a (filePath image_a)" and b: "\<not> fs_access disk_with_a (filePath image_b)"
    by (simp_all add: fs_access_def disk_with_a_def empty_disk_def image_a_def image_b_def)
  have a': "fs_access (disk_with_a\<lparr>files := (files disk_with_a)(''/srv/app/generated_imgs/.metadata.json'' \<mapsto>
               (MetadataDoc [image_a, image_b], 420))\<rparr>) (filePath image_a)"
    and b': "\<not> fs_access (disk_with_a\<lparr>files := (files disk_with_a)(''/srv/app/generated_imgs/.metadata.json'' \<mapsto>
               (MetadataDoc [image_a, image_b], 420))\<rparr>) (filePath image_b)"
    by (simp_all add: fs_access_def disk_with_a_def empty_disk_def image_a_def image_b_def)
  from C6_roundtrip [OF index_wf_two_images saveMetadata_two_images refl f e] a' b'
  have "imageMetadata (loadMetadata data_env new_ImgMcp
          (disk_with_a\<lparr>files := (files disk_with_a)(''/srv/app/generated_imgs/.metadata.json'' \<mapsto>
               (MetadataDoc [image_a, image_b], 420))\<rparr>)) = [(''a'', image_a)]"
    by (simp add: imageMetadata_two_images)
  with index_wf_two_images saveMetadata_two_images f e a b show ?thesis by simp
qed


text \<open>
  C7. Deleting an id that is not in the index fails with the not-found error (code
  \<open>InvalidParams\<close>, message \<open>Image not found: <id>\<close>) and changes neither the server
  state nor the disk. Deleting an id that is in the index removes the entry whether or not
  the image file could be removed, and writes the remaining records to the metadata file
  when that file can be written; deleting the same id again fails with the not-found error.
\<close>

theorem C7_delete:
  "(Map_get (imageMetadata st) (idOfRequest imageId) = None \<longrightarrow>
      deleteImage env imageId st fs =
        (Inl (McpError InvalidParams (''Image not found: '' @ idOfRequest imageId)), st, fs))
   \<and> (Map_get (imageMetadata st) (idOfRequest imageId) \<noteq> None \<longrightarrow>
        (\<exists>r st' fs'. deleteImage env imageId st fs = (r, st', fs')
           \<and> imageMetadata st' = Map_delete (idOfRequest imageId) (imageMetadata st)
           \<and> Map_get (imageMetadata st') (idOfRequest imageId) = None
           \<and> (metadataPath env st \<notin> write_denied fs \<longrightarrow>
                r = Inr [TextContent (''Image deleted successfully: '' @ idOfRequest imageId)]
                \<and> map_option fst (files fs' (metadataPath env st)) =
                    Some (MetadataDoc (Map_values (imageMetadata st'))))
           \<and> deleteImage env imageId st' fs' =
               (Inl (McpError InvalidParams (''Image not found: '' @ idOfRequest imageId)), st', fs')))"
proof (intro conjI impI)
  assume "Map_get (imageMetadata st) (idOfRequest imageId) = None"
  then show "deleteImage env imageId st fs =
        (Inl (McpError InvalidParams (''Image not found: '' @ idOfRequest imageId)), st, fs)"
    by (simp add: deleteImage_def)
next
  assume "Map_get (imageMetadata st) (idOfRequest imageId) \<noteq> None"
  then obtain meta where m: "Map_get (imageMetadata st) (idOfRequest imageId) = Some meta" by auto
  define ident where "ident = idOfRequest imageId"
  define fs1 where "fs1 = (case fs_unlink fs (filePath meta) of Inl e \<Rightarrow> fs | Inr f \<Rightarrow> f)"
  define st1 where "st1 = st\<lparr>imageMetadata := Map_delete ident (imageMetadata st)\<rparr>"
  have wd: "write_denied fs1 = write_denied fs"
    by (auto simp: fs1_def fs_unlink_def split: sum.splits if_splits)
  have gone: "Map_get (imageMetadata st1) ident = None"
    by (simp add: st1_def Map_get_def Map_delete_def delete_conv')
  have same_path: "metadataPath env st1 = metadataPath env st"
    by (simp add: st1_def metadataPath_def getImagesDirectory_def)
  have nf: "\<And>f. deleteImage env imageId st1 f =
               (Inl (McpError InvalidParams (''Image not found: '' @ ident)), st1, f)"
    using gone by (simp add: deleteImage_def ident_def)
  show "\<exists>r st' fs'. deleteImage env imageId st fs = (r, st', fs')
           \<and> imageMetadata st' = Map_delete (idOfRequest imageId) (imageMetadata st)
           \<and> Map_get (imageMetadata st') (idOfRequest imageId) = None
           \<and> (metadataPath env st \<notin> write_denied fs \<longrightarrow>
                r = Inr [TextContent (''Image deleted successfully: '' @ idOfRequest imageId)]
                \<and> map_option fst (files fs' (metadataPath env st)) =
                    Some (MetadataDoc (Map_values (imageMetadata st'))))
           \<and> deleteImage env imageId st' fs' =
               (Inl (McpError InvalidParams (''Image not found: '' @ idOfRequest imageId)), st', fs')"
  proof (cases "saveMetadata env st1 fs1")
    case (Inl failed)
    obtain e fs2 where failed: "failed = (e, fs2)" by (cases failed)
    from Inl have den: "metadataPath env st \<in> write_denied fs"
      using wd same_path by (auto simp: saveMetadata_def fs_writeFile_def split: if_splits)
    have "deleteImage env imageId st fs = (Inl e, st1, fs2)"
      using m Inl failed by (simp add: deleteImage_def Let_def ident_def[symmetric] fs1_def st1_def)
    with den gone nf show ?thesis
      by (simp add: ident_def[symmetric] st1_def)
  next
    case (Inr fs2)
    then have c: "metadataPath env st \<notin> write_denied fs
        \<and> map_option fst (files fs2 (metadataPath env st)) = Some (MetadataDoc (Map_values (imageMetadata st1)))"
      using wd same_path by (auto simp: saveMetadata_def fs_writeFile_def split: if_splits)
    have "deleteImage env imageId st fs =
            (Inr [TextContent (''Image deleted successfully: '' @ ident)], st1, fs2)"
      using m Inr by (simp add: deleteImage_def Let_def ident_def[symmetric] fs1_def st1_def)
    with c gone nf show ?thesis
      by (simp add: ident_def[symmetric] st1_def)
  qed
qed


theorem C7_witness:
  "Map_get (imageMetadata two_images) (idOfRequest ''img://image/zzz'') = None
   \<and> deleteImage data_env ''img://image/zzz'' two_images disk_with_a =
        (Inl (McpError InvalidParams ''Image not found: zzz''), two_images, disk_with_a)
   \<and> Map_get (imageMetadata two_images) (idOfRequest ''b'') \<noteq> None
   \<and> metadataPath data_env two_images \<notin> write_denied disk_with_a
   \<and> fs_unlink disk_with_a (filePath image_b) =
        Inl (Error (''ENOENT: no such file or directory, unlink '' @ [CHR 0x27]
                    @ ''/srv/app/generated_imgs/edited-b.png'' @ [CHR 0x27]))
   \<and> deleteImage data_env ''b'' two_images disk_with_a =
        (Inr [TextContent ''Image deleted successfully: b''],
         two_images\<lparr>imageMetadata := [(''a'', image_a)]\<rparr>,
         disk_with_a\<lparr>files := (files disk_with_a)(''/srv/app/generated_imgs/.metadata.json'' \<mapsto>
            (MetadataDoc [image_a], 420))\<rparr>)
   \<and> deleteImage data_env ''b'' (two_images\<lparr>imageMetadata := [(''a'', image_a)]\<rparr>)
         (disk_with_a\<lparr>files := (files disk_with_a)(''/srv/app/generated_imgs/.metadata.json'' \<mapsto>
            (MetadataDoc [image_a], 420))\<rparr>) =
        (Inl (McpError InvalidParams ''Image not found: b''),
         two_images\<lparr>imageMetadata := [(''a'', image_a)]\<rparr>,
         disk_with_a\<lparr>files := (files disk_with_a)(''/srv/app/generated_imgs/.metadata.json'' \<mapsto>
            (MetadataDoc [image_a], 420))\<rparr>)"
proof -
  have i1: "idOfRequest ''img://image/zzz'' = ''zzz''" and i2: "idOfRequest ''b'' = ''b''"
    by (simp_all add: idOfRequest_def)
  have g1: "Map_get (imageMetadata two_images) (idOfRequest ''img://image/zzz'') = None"
    by (simp add: i1 imageMetadata_two_images Map_get_def)
  have g2: "Map_get (imageMetadata two_images) (idOfRequest ''b'') \<noteq> None"
    by (simp add: i2 imageMetadata_two_images Map_get_def)
  have w: "metadataPath data_env two_images \<notin> write_denied disk_with_a"
    by (simp add: disk_with_a_def empty_disk_def)
  have u: "fs_unlink disk_with_a (filePath image_b) =
        Inl (Error (''ENOENT: no such file or directory, unlink '' @ [CHR 0x27]
                    @ ''/srv/app/generated_imgs/edited-b.png'' @ [CHR 0x27]))"
    by (simp add: fs_unlink_def disk_with_a_def empty_disk_def image_b_def)
  have mp': "metadataPath data_env (two_images\<lparr>imageMetadata := [(''a'', image_a)]\<rparr>) =
               ''/srv/app/generated_imgs/.metadata.json''"
    using metadataPath_two_images by (simp add: metadataPath_def getImagesDirectory_def)
  have d: "deleteImage data_env ''b'' two_images disk_with_a =
        (Inr [TextContent ''Image deleted successfully: b''],
         two_images\<lparr>imageMetadata := [(''a'', image_a)]\<rparr>,
         disk_with_a\<lparr>files := (files disk_with_a)(''/srv/app/generated_imgs/.metadata.json'' \<mapsto>
            (MetadataDoc [image_a], 420))\<rparr>)"
    unfolding deleteImage_def i2 imageMetadata_two_images Let_def
    apply (simp add: Map_get_def Map_delete_def u saveMetadata_def mp' Map_values_def)
    apply (simp add: fs_writeFile_def mode_after_write_def disk_with_a_def empty_disk_def Map_delete_def)
    done
  from C7_delete [of two_images "''img://image/zzz''" data_env disk_with_a] g1
  have n: "deleteImage data_env ''img://image/zzz'' two_images disk_with_a =
        (Inl (McpError InvalidParams ''Image not found: zzz''), two_images, disk_with_a)"
    by (simp add: i1)
  from C7_delete [of two_images "''b''" data_env disk_with_a] g2 d
  have s: "deleteImage data_env ''b'' (two_images\<lparr>imageMetadata := [(''a'', image_a)]\<rparr>)
         (disk_with_a\<lparr>files := (files disk_with_a)(''/srv/app/generated_imgs/.metadata.json'' \<mapsto>
            (MetadataDoc [image_a], 420))\<rparr>) =
        (Inl (McpError InvalidParams ''Image not found: b''),
         two_images\<lparr>imageMetadata := [(''a'', image_a)]\<rparr>,
         disk_with_a\<lparr>files := (files disk_with_a)(''/srv/app/generated_imgs/.metadata.json'' \<mapsto>
            (MetadataDoc [image_a], 420))\<rparr>)"
    by (simp add: i2 imageMetadata_two_images Map_delete_def Map_get_def)
  show ?thesis using g1 n g2 w u d s by simp
qed


text \<open>
  C9. The claim: the metadata file is written with owner-only permissions (0o600 = 384).
  \<open>saveMetadata\<close> passes no mode to \<open>fs.writeFile\<close>: with the umask 0o022 a new
  metadata file has the mode 0o644 = 420, readable by group and others.
\<close>

theorem C9_metadata_file_mode:
  "saveMetadata data_env new_ImgMcp empty_disk =
     Inr (empty_disk\<lparr>files := [''/srv/app/generated_imgs/.metadata.json'' \<mapsto> (MetadataDoc [], 420)]\<rparr>)
   \<and> (420 :: file_mode) \<noteq> 384"
  unfolding saveMetadata_def metadataPath_new
  by (simp add: fs_writeFile_def mode_after_write_def empty_disk_def
      Map_values_def new_ImgMcp_def)

section \<open>Failed persists\<close>

lemma metadataPath_cong:
  "config st' = config st \<Longrightarrow> metadataPath env st' = metadataPath env st"
  by (simp add: metadataPath_def getImagesDirectory_def)

lemma saveMetadata_denied:
  "metadataPath env st \<in> write_denied fs \<Longrightarrow>
     saveMetadata env st fs =
       Inl (Error (persist_failure env st fs),
            fs\<lparr>files := (files fs)(metadataPath env st := after_failed_write fs (metadataPath env st) None)\<rparr>)"
  by (simp add: saveMetadata_def fs_writeFile_def persist_failure_def)

lemma after_failed_write_cong:
  "files fs1 p = files fs p \<Longrightarrow> umask fs1 = umask fs \<Longrightarrow> write_failure fs1 = write_failure fs \<Longrightarrow>
     after_failed_write fs1 p mo = after_failed_write fs p mo"
  by (simp add: after_failed_write_def mode_after_write_def split: option.splits)

lemma Map_get_set: "Map_get (Map_set k v m) k = Some v"
  by (simp add: Map_get_def Map_set_def update_conv')

lemma Map_get_delete: "Map_get (Map_delete k m) k = None"
  by (simp add: Map_get_def Map_delete_def delete_conv')

lemma fs_unlink_keeps:
  "(case fs_unlink fs p of Inl e \<Rightarrow> fs | Inr f \<Rightarrow> f) = fs1 \<Longrightarrow>
     write_denied fs1 = write_denied fs \<and> umask fs1 = umask fs \<and> write_failure fs1 = write_failure fs
     \<and> (\<forall>q. q \<noteq> p \<longrightarrow> files fs1 q = files fs q)"
  by (auto simp: fs_unlink_def split: if_splits)

lemma delete_persist_fails:
  assumes m: "Map_get (imageMetadata st) (idOfRequest imageId) = Some meta"
    and den: "metadataPath env st \<in> write_denied fs"
    and other: "filePath meta \<noteq> metadataPath env st"
  shows "\<exists>st' fs'. callTool env up (delete_image imageId) st fs =
             (Inl (McpError InternalError (''Tool execution failed: '' @ persist_failure env st fs)), st', fs')
           \<and> imageMetadata st' = Map_delete (idOfRequest imageId) (imageMetadata st)
           \<and> Map_get (imageMetadata st') (idOfRequest imageId) = None
           \<and> files fs' (metadataPath env st) = after_failed_write fs (metadataPath env st) None"
proof -
  let ?mp = "metadataPath env st"
  define fs1 where "fs1 = (case fs_unlink fs (filePath meta) of Inl e \<Rightarrow> fs | Inr f \<Rightarrow> f)"
  define st1 where "st1 = st\<lparr>imageMetadata := Map_delete (idOfRequest imageId) (imageMetadata st)\<rparr>"
  define fs2 where "fs2 = fs1\<lparr>files := (files fs1)(?mp := after_failed_write fs1 ?mp None)\<rparr>"
  from fs_unlink_keeps[OF fs1_def[symmetric]] other
  have wd: "write_denied fs1 = write_denied fs" and um: "umask fs1 = umask fs"
    and wf: "write_failure fs1 = write_failure fs"
    and same: "files fs1 ?mp = files fs ?mp" by auto
  have mp: "metadataPath env st1 = ?mp"
    by (rule metadataPath_cong) (simp add: st1_def)
  have pf: "persist_failure env st1 fs1 = persist_failure env st fs"
    by (simp add: persist_failure_def mp wf)
  have "saveMetadata env st1 fs1 = Inl (Error (persist_failure env st fs), fs2)"
    using saveMetadata_denied[of env st1 fs1] den wd by (simp add: mp pf fs2_def)
  then have "deleteImage env imageId st fs = (Inl (Error (persist_failure env st fs)), st1, fs2)"
    using m by (simp add: deleteImage_def Let_def fs1_def st1_def)
  then have "callTool env up (delete_image imageId) st fs =
      (Inl (McpError InternalError (''Tool execution failed: '' @ persist_failure env st fs)), st1, fs2)"
    by (simp add: callTool_def error_message_def)
  moreover have "files fs2 ?mp = after_failed_write fs ?mp None"
    using after_failed_write_cong[OF same um wf] by (simp add: fs2_def)
  ultimately show ?thesis by (auto simp: st1_def Map_get_delete)
qed

lemma storeGenerated_persist_fails:
  assumes den: "metadataPath env st \<in> write_denied fs"
    and img: "filePath (generatedMetadata up (getImagesDirectory env st) promptText m f d) \<notin> write_denied fs"
  shows "\<exists>st' fs'. storeGenerated env up promptText m f d st fs =
             (Inl (Error (persist_failure env st fs)), st', fs')
           \<and> imageMetadata st' =
               Map_set (image_id (generatedMetadata up (getImagesDirectory env st) promptText m f d))
                 (generatedMetadata up (getImagesDirectory env st) promptText m f d) (imageMetadata st)
           \<and> files fs' (metadataPath env st) = after_failed_write fs (metadataPath env st) None"
proof -
  let ?mp = "metadataPath env st"
  define md where "md = generatedMetadata up (getImagesDirectory env st) promptText m f d"
  define fs1 where "fs1 = fs\<lparr>files := (files fs)(filePath md \<mapsto> (Bytes (base64_decode up d), mode_after_write fs (filePath md) None))\<rparr>"
  define st2 where "st2 = st\<lparr>lastImagePath := Some (filePath md), imageMetadata := Map_set (image_id md) md (imageMetadata st)\<rparr>"
  define fs2 where "fs2 = fs1\<lparr>files := (files fs1)(?mp := after_failed_write fs1 ?mp None)\<rparr>"
  have w: "fs_writeFile fs (filePath md) (Bytes (base64_decode up d)) None = Inr fs1"
    using img by (simp add: fs_writeFile_def md_def fs1_def)
  have ne: "filePath md \<noteq> ?mp" using den img by (auto simp: md_def)
  have mp: "metadataPath env st2 = ?mp" by (rule metadataPath_cong) (simp add: st2_def)
  have same: "files fs1 ?mp = files fs ?mp" and um: "umask fs1 = umask fs"
    and wf: "write_failure fs1 = write_failure fs" and wd: "write_denied fs1 = write_denied fs"
    using ne by (simp_all add: fs1_def)
  have pf: "persist_failure env st2 fs1 = persist_failure env st fs"
    by (simp add: persist_failure_def mp wf)
  have "saveMetadata env st2 fs1 = Inl (Error (persist_failure env st fs), fs2)"
    using saveMetadata_denied[of env st2 fs1] den wd by (simp add: mp pf fs2_def)
  then have "storeGenerated env up promptText m f d st fs = (Inl (Error (persist_failure env st fs)), st2, fs2)"
    using w by (simp add: storeGenerated_def Let_def md_def[symmetric] st2_def)
  moreover have "files fs2 ?mp = after_failed_write fs ?mp None"
    using after_failed_write_cong[OF same um wf] by (simp add: fs2_def)
  ultimately show ?thesis by (auto simp: st2_def md_def)
qed

lemma generate_persist_fails:
  assumes conf: "ensureConfigured st"
    and p1: "trim promptText \<noteq> []" and p2: "int (length promptText) \<le> promptLimit st"
    and dir: "fs_mkdir fs (getImagesDirectory env st) = Inr fs"
    and upc: "callUpstream up (selectModel st m) (selectFormat st f) = Inr (answer, Some d, mime)"
    and dn: "d \<noteq> []"
    and img: "filePath (generatedMetadata up (getImagesDirectory env st) promptText
                          (selectModel st m) (selectFormat st f) d) \<notin> write_denied fs"
    and den: "metadataPath env st \<in> write_denied fs"
  shows "\<exists>st' fs'. callTool env up (generate_image promptText m f) st fs =
             (Inl (McpError InternalError (''Failed to generate image: '' @ persist_failure env st fs)), st', fs')
           \<and> imageMetadata st' =
               Map_set (image_id (generatedMetadata up (getImagesDirectory env st) promptText
                                    (selectModel st m) (selectFormat st f) d))
                 (generatedMetadata up (getImagesDirectory env st) promptText
                    (selectModel st m) (selectFormat st f) d) (imageMetadata st)
           \<and> files fs' (metadataPath env st) = after_failed_write fs (metadataPath env st) None"
proof -
  from storeGenerated_persist_fails[OF den img] obtain st' fs' where
    s: "storeGenerated env up promptText (selectModel st m) (selectFormat st f) d st fs =
          (Inl (Error (persist_failure env st fs)), st', fs')"
    and i: "imageMetadata st' =
               Map_set (image_id (generatedMetadata up (getImagesDirectory env st) promptText
                                    (selectModel st m) (selectFormat st f) d))
                 (generatedMetadata up (getImagesDirectory env st) promptText
                    (selectModel st m) (selectFormat st f) d) (imageMetadata st)"
    and k: "files fs' (metadataPath env st) = after_failed_write fs (metadataPath env st) None"
    by blast
  have pne: "promptText \<noteq> []" using p1 by (auto simp: trim_def)
  have "generateImage_try env up promptText (selectModel st m) (selectFormat st f) st fs =
          (Inl (Error (persist_failure env st fs)), st', fs')"
    using dir upc dn s by (simp add: generateImage_try_def truthy_def or_else_def)
  then have "generateImage env up promptText m f st fs =
      (Inl (McpError InternalError (''Failed to generate image: '' @ persist_failure env st fs)), st', fs')"
    using conf p1 p2 pne by (simp add: generateImage_def error_message_def)
  then have "callTool env up (generate_image promptText m f) st fs =
      (Inl (McpError InternalError (''Failed to generate image: '' @ persist_failure env st fs)), st', fs')"
    by (simp add: callTool_def)
  with i k show ?thesis by blast
qed

lemma editParts_persist_fails:
  "firstImagePart ps = Some (j, d) \<Longrightarrow>
   metadataPath env (cur_state acc) \<in> write_denied (cur_fs acc) \<Longrightarrow>
   filePath (editedMetadata up ctx (k + j) d) \<notin> write_denied (cur_fs acc) \<Longrightarrow>
   \<exists>acc'. editParts env up ctx k ps acc =
             (Some (Error (persist_failure env (cur_state acc) (cur_fs acc))), acc')
      \<and> imageMetadata (cur_state acc') =
            Map_set (image_id (editedMetadata up ctx (k + j) d)) (editedMetadata up ctx (k + j) d)
              (imageMetadata (cur_state acc))
      \<and> files (cur_fs acc') (metadataPath env (cur_state acc)) =
            after_failed_write (cur_fs acc) (metadataPath env (cur_state acc)) None"
proof (induction ps arbitrary: j k acc)
  case Nil
  then show ?case by simp
next
  case (Cons p ps)
  let ?mp = "metadataPath env (cur_state acc)"
  define acc1 where "acc1 = (if truthy (part_text p)
                  then acc\<lparr>textContent := textContent acc @ or_else (part_text p) []\<rparr> else acc)"
  have s1: "cur_state acc1 = cur_state acc" and f1: "cur_fs acc1 = cur_fs acc"
    by (simp_all add: acc1_def)
  have skip: "\<And>j'. firstImagePart ps = Some (j', d) \<Longrightarrow> j = Suc j' \<Longrightarrow>
     \<exists>acc'. editParts env up ctx (Suc k) ps acc1 =
               (Some (Error (persist_failure env (cur_state acc) (cur_fs acc))), acc')
      \<and> imageMetadata (cur_state acc') =
            Map_set (image_id (editedMetadata up ctx (k + j) d)) (editedMetadata up ctx (k + j) d)
              (imageMetadata (cur_state acc))
      \<and> files (cur_fs acc') ?mp = after_failed_write (cur_fs acc) ?mp None"
  proof -
    fix j' assume a: "firstImagePart ps = Some (j', d)" and b: "j = Suc j'"
    from Cons.IH[of j' acc1 "Suc k", OF a] Cons.prems(2,3) b
    show "\<exists>acc'. editParts env up ctx (Suc k) ps acc1 =
               (Some (Error (persist_failure env (cur_state acc) (cur_fs acc))), acc')
      \<and> imageMetadata (cur_state acc') =
            Map_set (image_id (editedMetadata up ctx (k + j) d)) (editedMetadata up ctx (k + j) d)
              (imageMetadata (cur_state acc))
      \<and> files (cur_fs acc') ?mp = after_failed_write (cur_fs acc) ?mp None"
      by (simp add: s1 f1)
  qed
  show ?case
  proof (cases "part_inlineData p")
    case None
    with Cons.prems(1) obtain j' where "firstImagePart ps = Some (j', d)" "j = Suc j'"
      by auto
    from skip[OF this] None show ?thesis
      by (simp add: acc1_def[symmetric] Let_def)
  next
    case (Some inl)
    show ?thesis
    proof (cases "truthy (inline_data inl)")
      case False
      with Cons.prems(1) Some obtain j' where "firstImagePart ps = Some (j', d)" "j = Suc j'"
        by auto
      from skip[OF this] Some False show ?thesis
        by (simp add: acc1_def[symmetric] Let_def)
    next
      case True
      with Cons.prems(1) Some have j: "j = 0" and d: "d = or_else (inline_data inl) []"
        by auto
      define md where "md = editedMetadata up ctx k d"
      define fs1 where "fs1 = (cur_fs acc)\<lparr>files := (files (cur_fs acc))(filePath md \<mapsto>
            (Bytes (base64_decode up d), mode_after_write (cur_fs acc) (filePath md) None))\<rparr>"
      define st2 where "st2 = (cur_state acc)\<lparr>lastImagePath := Some (filePath md),
            imageMetadata := Map_set (image_id md) md (imageMetadata (cur_state acc))\<rparr>"
      define fs2 where "fs2 = fs1\<lparr>files := (files fs1)(?mp := after_failed_write fs1 ?mp None)\<rparr>"
      define acc2 where "acc2 = acc1\<lparr>cur_state := st2, cur_fs := fs1,
                                      savedFiles := savedFiles acc1 @ [filePath md]\<rparr>"
      have img: "filePath md \<notin> write_denied (cur_fs acc)"
        using Cons.prems(3) j by (simp add: md_def)
      have w: "fs_writeFile (cur_fs acc) (filePath md) (Bytes (base64_decode up d)) None = Inr fs1"
        using img by (simp add: fs_writeFile_def fs1_def)
      have ne: "filePath md \<noteq> ?mp"
        using img Cons.prems(2) by auto
      have mp: "metadataPath env st2 = ?mp"
        by (rule metadataPath_cong) (simp add: st2_def)
      have same: "files fs1 ?mp = files (cur_fs acc) ?mp" and um: "umask fs1 = umask (cur_fs acc)"
        and wf: "write_failure fs1 = write_failure (cur_fs acc)"
        and wd: "write_denied fs1 = write_denied (cur_fs acc)"
        using ne by (simp_all add: fs1_def)
      have pf: "persist_failure env st2 fs1 = persist_failure env (cur_state acc) (cur_fs acc)"
        by (simp add: persist_failure_def mp wf)
      have sv: "saveMetadata env st2 fs1 =
                  Inl (Error (persist_failure env (cur_state acc) (cur_fs acc)), fs2)"
        using saveMetadata_denied[of env st2 fs1] Cons.prems(2) wd
        by (simp add: mp pf fs2_def)
      have "editParts env up ctx k (p # ps) acc =
              (Some (Error (persist_failure env (cur_state acc) (cur_fs acc))), acc2\<lparr>cur_fs := fs2\<rparr>)"
        using Some True w sv
        by (simp add: acc1_def[symmetric] Let_def d[symmetric] md_def[symmetric] s1 f1
            st2_def[symmetric] acc2_def)
      moreover have "files (cur_fs (acc2\<lparr>cur_fs := fs2\<rparr>)) ?mp = after_failed_write (cur_fs acc) ?mp None"
        using after_failed_write_cong[OF same um wf] by (simp add: fs2_def)
      moreover have "imageMetadata (cur_state (acc2\<lparr>cur_fs := fs2\<rparr>)) =
            Map_set (image_id md) md (imageMetadata (cur_state acc))"
        by (simp add: acc2_def st2_def)
      ultimately show ?thesis using j by (auto simp: md_def)
    qed
  qed
qed

lemma edit_persist_fails:
  assumes conf: "ensureConfigured st"
    and val: "validateAndSanitize env (validatorInForce env st) imagePath = Inr v"
    and img: "isImageFile v"
    and lim: "case refImages of None \<Rightarrow> True | Some rs \<Rightarrow> int (length rs) \<le> referenceLimit st"
    and acc: "fs_access fs v"
    and rd: "fs_readFile fs v = Inr buffer"
    and upc: "fst (retryWithBackoff (generateContent up) 3 1000) = Inr response"
    and dir: "fs_mkdir fs (getImagesDirectory env st) = Inr fs"
    and fip: "firstImagePart (partsOf response) = Some (j, d)"
    and wr: "filePath (editedMetadata up
                (editContext env (st\<lparr>pathValidator := Some (validatorInForce env st)\<rparr>) promptText v
                   (survivingReferences env (validatorInForce env st) fs refImages)) j d)
               \<notin> write_denied fs"
    and den: "metadataPath env st \<in> write_denied fs"
  shows "\<exists>st' fs'. callTool env up (edit_image imagePath promptText refImages) st fs =
             (Inl (McpError InternalError (''Failed to edit image: '' @ persist_failure env st fs)), st', fs')
           \<and> imageMetadata st' =
               Map_set (image_id (editedMetadata up
                (editContext env (st\<lparr>pathValidator := Some (validatorInForce env st)\<rparr>) promptText v
                   (survivingReferences env (validatorInForce env st) fs refImages)) j d))
                 (editedMetadata up
                (editContext env (st\<lparr>pathValidator := Some (validatorInForce env st)\<rparr>) promptText v
                   (survivingReferences env (validatorInForce env st) fs refImages)) j d) (imageMetadata st)
           \<and> files fs' (metadataPath env st) = after_failed_write fs (metadataPath env st) None"
proof -
  let ?pv = "validatorInForce env st"
  let ?st0 = "st\<lparr>pathValidator := Some ?pv\<rparr>"
  let ?refs = "survivingReferences env ?pv fs refImages"
  let ?ctx = "editContext env ?st0 promptText v ?refs"
  let ?start = "\<lparr>cur_state = ?st0, cur_fs = fs, textContent = [], savedFiles = [], content = []\<rparr>"
  have mp0: "metadataPath env ?st0 = metadataPath env st"
    by (rule metadataPath_cong) simp
  have gd: "getImagesDirectory env ?st0 = getImagesDirectory env st"
    by (simp add: getImagesDirectory_def)
  have pf: "persist_failure env ?st0 fs = persist_failure env st fs"
    by (simp add: persist_failure_def mp0)
  have rl: "referenceLimit ?st0 = referenceLimit st"
    by (simp add: referenceLimit_def)
  have wr': "filePath (editedMetadata up ?ctx (0 + j) d) \<notin> write_denied (cur_fs ?start)"
    using wr by simp
  have den': "metadataPath env (cur_state ?start) \<in> write_denied (cur_fs ?start)"
    using den by (simp add: mp0)
  from editParts_persist_fails[OF fip den' wr']
  obtain acc' where
    e: "editParts env up ?ctx 0 (partsOf response) ?start = (Some (Error (persist_failure env st fs)), acc')"
    and i: "imageMetadata (cur_state acc') =
              Map_set (image_id (editedMetadata up ?ctx j d)) (editedMetadata up ?ctx j d) (imageMetadata st)"
    and k: "files (cur_fs acc') (metadataPath env st) = after_failed_write fs (metadataPath env st) None"
    by (auto simp: mp0 pf)
  have lim': "\<not> (case refImages of None \<Rightarrow> False | Some rs \<Rightarrow> int (length rs) > referenceLimit ?st0)"
    using lim by (simp add: rl split: option.splits)
  have "editImage_try env up imagePath v promptText ?refs ?st0 fs =
          (Inl (Error (persist_failure env st fs)), cur_state acc', cur_fs acc')"
    using upc dir e
    by (simp add: editImage_try_def gd Let_def partsOf_def[symmetric])
  then have "editImage env up imagePath promptText refImages st fs =
      (Inl (McpError InternalError (''Failed to edit image: '' @ persist_failure env st fs)),
       cur_state acc', cur_fs acc')"
    using conf val img lim' rd acc
    by (simp add: editImage_def Let_def error_message_def)
  then have "callTool env up (edit_image imagePath promptText refImages) st fs =
      (Inl (McpError InternalError (''Failed to edit image: '' @ persist_failure env st fs)),
       cur_state acc', cur_fs acc')"
    by (simp add: callTool_def)
  with i k show ?thesis
    by auto
qed

lemma saveMetadata_fails_iff:
  "(\<exists>e fs'. saveMetadata env st fs = Inl (e, fs')) \<longleftrightarrow> metadataPath env st \<in> write_denied fs"
  by (simp add: saveMetadata_def fs_writeFile_def)

text \<open>
  C8. A persist fails exactly when the metadata file is one whose write fails, for whatever
  reason and with whatever message and remains the disk has for it. Then deleting a tracked
  image ends in an internal error that carries the message of the failure, with the
  entry gone from the index; a generation whose upstream call returned image data, and an
  edit whose response has a part with image data, end in an internal error that carries
  the message, with the new record in the index. In the three cases nothing is rolled
  back and the metadata file holds what the failed write left of it, which is the old
  file when the write was refused outright.
\<close>

theorem C8_persist_failure_surfaced:
  assumes den: "metadataPath env st \<in> write_denied fs"
  shows
    "(Map_get (imageMetadata st) (idOfRequest imageId) = Some meta
        \<and> filePath meta \<noteq> metadataPath env st \<longrightarrow>
      (case callTool env up (delete_image imageId) st fs of (r, st', fs') \<Rightarrow>
         r = Inl (McpError InternalError (''Tool execution failed: '' @ persist_failure env st fs))
         \<and> imageMetadata st' = Map_delete (idOfRequest imageId) (imageMetadata st)
         \<and> Map_get (imageMetadata st') (idOfRequest imageId) = None
         \<and> files fs' (metadataPath env st) = after_failed_write fs (metadataPath env st) None))
   \<and> (ensureConfigured st \<and> trim promptText \<noteq> [] \<and> int (length promptText) \<le> promptLimit st
        \<and> fs_mkdir fs (getImagesDirectory env st) = Inr fs
        \<and> callUpstream up (selectModel st m) (selectFormat st f) = Inr (answer, Some d, mime) \<and> d \<noteq> []
        \<and> filePath (generatedMetadata up (getImagesDirectory env st) promptText
                         (selectModel st m) (selectFormat st f) d) \<notin> write_denied fs \<longrightarrow>
      (case callTool env up (generate_image promptText m f) st fs of (r, st', fs') \<Rightarrow>
         r = Inl (McpError InternalError (''Failed to generate image: '' @ persist_failure env st fs))
         \<and> imageMetadata st' =
               Map_set (image_id (generatedMetadata up (getImagesDirectory env st) promptText
                                    (selectModel st m) (selectFormat st f) d))
                 (generatedMetadata up (getImagesDirectory env st) promptText
                    (selectModel st m) (selectFormat st f) d) (imageMetadata st)
         \<and> Map_get (imageMetadata st')
               (image_id (generatedMetadata up (getImagesDirectory env st) promptText
                            (selectModel st m) (selectFormat st f) d)) \<noteq> None
         \<and> files fs' (metadataPath env st) = after_failed_write fs (metadataPath env st) None))
   \<and> (ensureConfigured st
        \<and> validateAndSanitize env (validatorInForce env st) imagePath = Inr v \<and> isImageFile v
        \<and> (case refImages of None \<Rightarrow> True | Some rs \<Rightarrow> int (length rs) \<le> referenceLimit st)
        \<and> fs_access fs v \<and> fs_readFile fs v = Inr buffer
        \<and> fst (retryWithBackoff (generateContent up) 3 1000) = Inr response
        \<and> fs_mkdir fs (getImagesDirectory env st) = Inr fs
        \<and> firstImagePart (partsOf response) = Some (j, e)
        \<and> filePath (editedMetadata up
                (editContext env (st\<lparr>pathValidator := Some (validatorInForce env st)\<rparr>) editPrompt v
                   (survivingReferences env (validatorInForce env st) fs refImages)) j e)
               \<notin> write_denied fs \<longrightarrow>
      (case callTool env up (edit_image imagePath editPrompt refImages) st fs of (r, st', fs') \<Rightarrow>
         r = Inl (McpError InternalError (''Failed to edit image: '' @ persist_failure env st fs))
         \<and> imageMetadata st' =
               Map_set (image_id (editedMetadata up
                (editContext env (st\<lparr>pathValidator := Some (validatorInForce env st)\<rparr>) editPrompt v
                   (survivingReferences env (validatorInForce env st) fs refImages)) j e))
                 (editedMetadata up
                (editContext env (st\<lparr>pathValidator := Some (validatorInForce env st)\<rparr>) editPrompt v
                   (survivingReferences env (validatorInForce env st) fs refImages)) j e) (imageMetadata st)
         \<and> Map_get (imageMetadata st')
               (image_id (editedMetadata up
                (editContext env (st\<lparr>pathValidator := Some (validatorInForce env st)\<rparr>) editPrompt v
                   (survivingReferences env (validatorInForce env st) fs refImages)) j e)) \<noteq> None
         \<and> files fs' (metadataPath env st) = after_failed_write fs (metadataPath env st) None))"
proof (intro conjI impI)
  assume "Map_get (imageMetadata st) (idOfRequest imageId) = Some meta
        \<and> filePath meta \<noteq> metadataPath env st"
  then show "case callTool env up (delete_image imageId) st fs of (r, st', fs') \<Rightarrow>
         r = Inl (McpError InternalError (''Tool execution failed: '' @ persist_failure env st fs))
         \<and> imageMetadata st' = Map_delete (idOfRequest imageId) (imageMetadata st)
         \<and> Map_get (imageMetadata st') (idOfRequest imageId) = None
         \<and> files fs' (metadataPath env st) = after_failed_write fs (metadataPath env st) None"
    using delete_persist_fails[of st imageId meta env fs up] den by auto
next
  assume "ensureConfigured st \<and> trim promptText \<noteq> [] \<and> int (length promptText) \<le> promptLimit st
        \<and> fs_mkdir fs (getImagesDirectory env st) = Inr fs
        \<and> callUpstream up (selectModel st m) (selectFormat st f) = Inr (answer, Some d, mime) \<and> d \<noteq> []
        \<and> filePath (generatedMetadata up (getImagesDirectory env st) promptText
                         (selectModel st m) (selectFormat st f) d) \<notin> write_denied fs"
  then show "case callTool env up (generate_image promptText m f) st fs of (r, st', fs') \<Rightarrow>
         r = Inl (McpError InternalError (''Failed to generate image: '' @ persist_failure env st fs))
         \<and> imageMetadata st' =
               Map_set (image_id (generatedMetadata up (getImagesDirectory env st) promptText
                                    (selectModel st m) (selectFormat st f) d))
                 (generatedMetadata up (getImagesDirectory env st) promptText
                    (selectModel st m) (selectFormat st f) d) (imageMetadata st)
         \<and> Map_get (imageMetadata st')
               (image_id (generatedMetadata up (getImagesDirectory env st) promptText
                            (selectModel st m) (selectFormat st f) d)) \<noteq> None
         \<and> files fs' (metadataPath env st) = after_failed_write fs (metadataPath env st) None"
    using generate_persist_fails[of st promptText fs env up m f answer d mime] den
    by (auto simp: Map_get_set)
next
  assume "ensureConfigured st
        \<and> validateAndSanitize env (validatorInForce env st) imagePath = Inr v \<and> isImageFile v
        \<and> (case refImages of None \<Rightarrow> True | Some rs \<Rightarrow> int (length rs) \<le> referenceLimit st)
        \<and> fs_access fs v \<and> fs_readFile fs v = Inr buffer
        \<and> fst (retryWithBackoff (generateContent up) 3 1000) = Inr response
        \<and> fs_mkdir fs (getImagesDirectory env st) = Inr fs
        \<and> firstImagePart (partsOf response) = Some (j, e)
        \<and> filePath (editedMetadata up
                (editContext env (st\<lparr>pathValidator := Some (validatorInForce env st)\<rparr>) editPrompt v
                   (survivingReferences env (validatorInForce env st) fs refImages)) j e)
               \<notin> write_denied fs"
  then show "case callTool env up (edit_image imagePath editPrompt refImages) st fs of (r, st', fs') \<Rightarrow>
         r = Inl (McpError InternalError (''Failed to edit image: '' @ persist_failure env st fs))
         \<and> imageMetadata st' =
               Map_set (image_id (editedMetadata up
                (editContext env (st\<lparr>pathValidator := Some (validatorInForce env st)\<rparr>) editPrompt v
                   (survivingReferences env (validatorInForce env st) fs refImages)) j e))
                 (editedMetadata up
                (editContext env (st\<lparr>pathValidator := Some (validatorInForce env st)\<rparr>) editPrompt v
                   (survivingReferences env (validatorInForce env st) fs refImages)) j e) (imageMetadata st)
         \<and> Map_get (imageMetadata st')
               (image_id (editedMetadata up
                (editContext env (st\<lparr>pathValidator := Some (validatorInForce env st)\<rparr>) editPrompt v
                   (survivingReferences env (validatorInForce env st) fs refImages)) j e)) \<noteq> None
         \<and> files fs' (metadataPath env st) = after_failed_write fs (metadataPath env st) None"
    using edit_persist_fails[of st env imagePath v refImages fs buffer up response j e editPrompt] den
    by (auto simp: Map_get_set)
qed

lemmas sample_defs = two_images_def new_ImgMcp_def sample_config_def data_env_def full_disk_def
  disk_with_a_def empty_disk_def sample_upstream_def image_a_def image_b_def

lemmas path_fn_defs = path_join_def path_normalize_def isAbsolute_def getImagesDirectory_def
  defaultImagesDirectory_def metadataPath_def

lemma imagesDir_two_images: "getImagesDirectory data_env two_images = ''/srv/app/generated_imgs''"
  by (simp add: sample_defs path_fn_defs)

lemma metadata_denied_full: "metadataPath data_env two_images \<in> write_denied full_disk"
  unfolding metadataPath_two_images by (simp add: full_disk_def)

lemma persist_failure_full:
  "persist_failure data_env two_images full_disk = ''ENOSPC: no space left on device, write''"
  by (simp add: persist_failure_def full_disk_def)

lemma after_failed_write_full:
  "after_failed_write full_disk (metadataPath data_env two_images) None = Some (Bytes [], 420)"
  unfolding metadataPath_two_images
  by (simp add: after_failed_write_def mode_after_write_def full_disk_def disk_with_a_def empty_disk_def)

lemma lookup_image_a: "Map_get (imageMetadata two_images) (idOfRequest ''a'') = Some image_a"
  by (simp add: imageMetadata_two_images Map_get_def idOfRequest_def)

lemma image_a_not_metadata: "filePath image_a \<noteq> metadataPath data_env two_images"
  unfolding metadataPath_two_images by (simp add: image_a_def)

lemma configured_two_images: "ensureConfigured two_images"
  by (simp add: ensureConfigured_def two_images_def new_ImgMcp_def)

lemma prompt_not_blank: "trim ''red square'' \<noteq> []"
  by (simp add: trim_def isWhitespace_def)

lemma prompt_within_limit: "int (length ''red square'') \<le> promptLimit two_images"
  by (simp add: promptLimit_def two_images_def new_ImgMcp_def sample_config_def)

lemma imagesDir_writable: "fs_mkdir full_disk (getImagesDirectory data_env two_images) = Inr full_disk"
  unfolding imagesDir_two_images by (simp add: fs_mkdir_def full_disk_def)

lemma selectModel_two_images: "selectModel two_images None = ''gemini-2.5-flash-image-preview''"
  and selectFormat_two_images: "selectFormat two_images None = ''png''"
  by (simp_all add: selectModel_def selectFormat_def or_else_def two_images_def new_ImgMcp_def sample_config_def)

lemma upstream_answer: "fst (retryWithBackoff (generateContent sample_upstream) 3 1000) =
     Inr (Some [\<lparr>part_text = Some ''a blue circle'', part_inlineData = None\<rparr>,
                \<lparr>part_text = None,
                 part_inlineData = Some \<lparr>inline_data = Some ''QUJD'', inline_mimeType = Some ''image/png''\<rparr>\<rparr>])"
  by (simp add: retryWithBackoff_def sample_upstream_def)

lemma callUpstream_sample: "callUpstream sample_upstream (selectModel two_images None) (selectFormat two_images None) =
     Inr (''a blue circle'', Some ''QUJD'', ''image/png'')"
  unfolding selectModel_two_images selectFormat_two_images callUpstream_def
  by (simp add: upstream_answer isImagenModel_def truthy_def or_else_def)


lemma generated_record: "generatedMetadata sample_upstream (getImagesDirectory data_env two_images) ''red square''
             (selectModel two_images None) (selectFormat two_images None) ''QUJD'' =
   \<lparr>image_id = ''2025-01-03T00-00-00-000Z-k3x9qz'',
    filePath = ''/srv/app/generated_imgs/generated-2025-01-03T00-00-00-000Z-k3x9qz.png'',
    uri = ''img://image/2025-01-03T00-00-00-000Z-k3x9qz'',
    prompt = ''red square'', image_type = generated,
    timestamp = ''2025-01-03T00:00:00.001Z'',
    image_model = ''gemini-2.5-flash-image-preview'',
    image_format = ''png'', image_size = 3, referenceImages = None,
    parentImageId = None\<rparr>"
  unfolding imagesDir_two_images selectModel_two_images selectFormat_two_images generatedMetadata_def
  by (simp add: Let_def imageIdOf_def sample_upstream_def path_join_def path_normalize_def isAbsolute_def)

lemma validator_two_images: "validatorInForce data_env two_images =
     \<lparr>allowedDirectories = [''/srv/app/generated_imgs'', ''/srv/app'', ''/home/u''],
      imagesDirectory = ''/srv/app/generated_imgs''\<rparr>"
proof -
  have n: "pathValidator two_images = None"
    by (simp add: two_images_def new_ImgMcp_def)
  have c: "cwd data_env = ''/srv/app''" and h: "homedir data_env = ''/home/u''"
    by (simp_all add: data_env_def)
  show ?thesis
    unfolding validatorInForce_def n imagesDir_two_images new_PathValidator_def c h by simp
qed

lemma source_validated: "validateAndSanitize data_env (validatorInForce data_env two_images)
             ''/srv/app/generated_imgs/generated-a.png'' = Inr ''/srv/app/generated_imgs/generated-a.png''"
  unfolding validator_two_images by (simp add: path_eval data_env_def)

lemma source_is_image: "isImageFile ''/srv/app/generated_imgs/generated-a.png''"
  by (simp add: isImageFile_def path_extname_def toLowerCase_def isUpperCase_def)

lemma source_exists: "fs_access full_disk ''/srv/app/generated_imgs/generated-a.png''"
  by (simp add: fs_access_def full_disk_def disk_with_a_def empty_disk_def)

lemma source_read: "fs_readFile full_disk ''/srv/app/generated_imgs/generated-a.png'' = Inr (Bytes ''ABC'')"
  by (simp add: fs_readFile_def full_disk_def disk_with_a_def empty_disk_def)

lemma first_image_of_answer: "firstImagePart (partsOf (Some [\<lparr>part_text = Some ''a blue circle'', part_inlineData = None\<rparr>,
                \<lparr>part_text = None,
                 part_inlineData = Some \<lparr>inline_data = Some ''QUJD'', inline_mimeType = Some ''image/png''\<rparr>\<rparr>]))
            = Some (1, ''QUJD'')"
  by (simp add: partsOf_def truthy_def or_else_def)

lemma edited_record: "editedMetadata sample_upstream
             (editContext data_env (two_images\<lparr>pathValidator := Some (validatorInForce data_env two_images)\<rparr>)
                ''make it blue'' ''/srv/app/generated_imgs/generated-a.png''
                (survivingReferences data_env (validatorInForce data_env two_images) full_disk None)) 1 ''QUJD'' =
   \<lparr>image_id = ''2025-01-03T00-00-00-000Z-k3x9qz'',
    filePath = ''/srv/app/generated_imgs/edited-2025-01-03T00-00-00-000Z-k3x9qz.png'',
    uri = ''img://image/2025-01-03T00-00-00-000Z-k3x9qz'',
    prompt = ''make it blue'', image_type = edited,
    timestamp = ''2025-01-03T00:00:00.001Z'',
    image_model = ''gemini-2.5-flash-image-preview'',
    image_format = ''png'', image_size = 3, referenceImages = None,
    parentImageId = Some ''a''\<rparr>"
proof -
  have gd: "getImagesDirectory data_env (two_images\<lparr>pathValidator := Some (validatorInForce data_env two_images)\<rparr>)
              = ''/srv/app/generated_imgs''"
    using imagesDir_two_images by (simp add: getImagesDirectory_def)
  have m: "selectModel (two_images\<lparr>pathValidator := Some (validatorInForce data_env two_images)\<rparr>) None
            = ''gemini-2.5-flash-image-preview''"
    and f: "selectFormat (two_images\<lparr>pathValidator := Some (validatorInForce data_env two_images)\<rparr>) None = ''png''"
    using selectModel_two_images selectFormat_two_images by (simp_all add: selectModel_def selectFormat_def)
  show ?thesis
    unfolding editedMetadata_def editContext_def gd m f survivingReferences_def
    by (simp add: Let_def imageIdOf_def sample_upstream_def path_join_def path_normalize_def isAbsolute_def
        Map_values_def imageMetadata_two_images image_a_def image_b_def)
qed

theorem C8_witness:
  "metadataPath data_env two_images \<in> write_denied full_disk
   \<and> fst (callTool data_env sample_upstream (delete_image ''a'') two_images full_disk) =
        Inl (McpError InternalError ''Tool execution failed: ENOSPC: no space left on device, write'')
   \<and> map fst (imageMetadata (fst (snd (callTool data_env sample_upstream (delete_image ''a'')
                                            two_images full_disk)))) = [''b'']
   \<and> files (snd (snd (callTool data_env sample_upstream (delete_image ''a'') two_images full_disk)))
         ''/srv/app/generated_imgs/.metadata.json'' = Some (Bytes [], 420)
   \<and> fst (callTool data_env sample_upstream (generate_image ''red square'' None None)
              two_images full_disk) =
        Inl (McpError InternalError ''Failed to generate image: ENOSPC: no space left on device, write'')
   \<and> map fst (imageMetadata (fst (snd (callTool data_env sample_upstream
             (generate_image ''red square'' None None) two_images full_disk)))) =
        [''a'', ''b'', ''2025-01-03T00-00-00-000Z-k3x9qz'']
   \<and> fst (callTool data_env sample_upstream
              (edit_image ''/srv/app/generated_imgs/generated-a.png'' ''make it blue'' None)
              two_images full_disk) =
        Inl (McpError InternalError ''Failed to edit image: ENOSPC: no space left on device, write'')
   \<and> map fst (imageMetadata (fst (snd (callTool data_env sample_upstream
             (edit_image ''/srv/app/generated_imgs/generated-a.png'' ''make it blue'' None)
             two_images full_disk)))) =
        [''a'', ''b'', ''2025-01-03T00-00-00-000Z-k3x9qz'']"
proof -
  note c8 = C8_persist_failure_surfaced [OF metadata_denied_full, of "''a''" image_a sample_upstream
      "''red square''" None None "''a blue circle''" "''QUJD''" "''image/png''"
      "''/srv/app/generated_imgs/generated-a.png''" "''/srv/app/generated_imgs/generated-a.png''" None
      "Bytes ''ABC''"
      "Some [\<lparr>part_text = Some ''a blue circle'', part_inlineData = None\<rparr>,
                \<lparr>part_text = None,
                 part_inlineData = Some \<lparr>inline_data = Some ''QUJD'', inline_mimeType = Some ''image/png''\<rparr>\<rparr>]"
      1 "''QUJD''" "''make it blue''"]
  have g6: "filePath (generatedMetadata sample_upstream (getImagesDirectory data_env two_images) ''red square''
             (selectModel two_images None) (selectFormat two_images None) ''QUJD'') \<notin> write_denied full_disk"
    unfolding generated_record by (simp add: full_disk_def)
  have e6: "filePath (editedMetadata sample_upstream
             (editContext data_env (two_images\<lparr>pathValidator := Some (validatorInForce data_env two_images)\<rparr>)
                ''make it blue'' ''/srv/app/generated_imgs/generated-a.png''
                (survivingReferences data_env (validatorInForce data_env two_images) full_disk None)) 1 ''QUJD'')
             \<notin> write_denied full_disk"
    unfolding edited_record by (simp add: full_disk_def)
  have del: "case callTool data_env sample_upstream (delete_image ''a'') two_images full_disk of
         (r, st', fs') \<Rightarrow>
           r = Inl (McpError InternalError (''Tool execution failed: '' @ persist_failure data_env two_images full_disk))
           \<and> imageMetadata st' = Map_delete (idOfRequest ''a'') (imageMetadata two_images)
           \<and> files fs' (metadataPath data_env two_images) =
               after_failed_write full_disk (metadataPath data_env two_images) None"
    using c8 lookup_image_a image_a_not_metadata by (auto split: prod.splits)
  have gen: "case callTool data_env sample_upstream (generate_image ''red square'' None None)
                 two_images full_disk of
         (r, st', fs') \<Rightarrow>
           r = Inl (McpError InternalError (''Failed to generate image: '' @ persist_failure data_env two_images full_disk))
           \<and> imageMetadata st' =
               Map_set (image_id (generatedMetadata sample_upstream (getImagesDirectory data_env two_images)
                                    ''red square'' (selectModel two_images None) (selectFormat two_images None) ''QUJD''))
                 (generatedMetadata sample_upstream (getImagesDirectory data_env two_images)
                    ''red square'' (selectModel two_images None) (selectFormat two_images None) ''QUJD'')
                 (imageMetadata two_images)"
    using c8 configured_two_images prompt_not_blank prompt_within_limit imagesDir_writable
      callUpstream_sample g6 by (auto split: prod.splits)
  have edi: "case callTool data_env sample_upstream
                 (edit_image ''/srv/app/generated_imgs/generated-a.png'' ''make it blue'' None)
                 two_images full_disk of
         (r, st', fs') \<Rightarrow>
           r = Inl (McpError InternalError (''Failed to edit image: '' @ persist_failure data_env two_images full_disk))
           \<and> imageMetadata st' =
               Map_set (image_id (editedMetadata sample_upstream
             (editContext data_env (two_images\<lparr>pathValidator := Some (validatorInForce data_env two_images)\<rparr>)
                ''make it blue'' ''/srv/app/generated_imgs/generated-a.png''
                (survivingReferences data_env (validatorInForce data_env two_images) full_disk None)) 1 ''QUJD''))
                 (editedMetadata sample_upstream
             (editContext data_env (two_images\<lparr>pathValidator := Some (validatorInForce data_env two_images)\<rparr>)
                ''make it blue'' ''/srv/app/generated_imgs/generated-a.png''
                (survivingReferences data_env (validatorInForce data_env two_images) full_disk None)) 1 ''QUJD'')
                 (imageMetadata two_images)"
    using c8 configured_two_images source_validated source_is_image source_exists source_read
      upstream_answer imagesDir_writable first_image_of_answer e6 by (auto split: prod.splits)
  have i1: "idOfRequest ''a'' = ''a''" by (simp add: idOfRequest_def)
  from del have d': "fst (callTool data_env sample_upstream (delete_image ''a'') two_images full_disk) =
        Inl (McpError InternalError ''Tool execution failed: ENOSPC: no space left on device, write'')
     \<and> map fst (imageMetadata (fst (snd (callTool data_env sample_upstream (delete_image ''a'')
                                            two_images full_disk)))) = [''b'']
     \<and> files (snd (snd (callTool data_env sample_upstream (delete_image ''a'') two_images full_disk)))
         ''/srv/app/generated_imgs/.metadata.json'' = Some (Bytes [], 420)"
    unfolding persist_failure_full i1 imageMetadata_two_images metadataPath_two_images
    by (auto split: prod.splits
        simp: Map_delete_def after_failed_write_full[unfolded metadataPath_two_images])
  from gen have g': "fst (callTool data_env sample_upstream (generate_image ''red square'' None None)
              two_images full_disk) =
        Inl (McpError InternalError ''Failed to generate image: ENOSPC: no space left on device, write'')
     \<and> map fst (imageMetadata (fst (snd (callTool data_env sample_upstream
             (generate_image ''red square'' None None) two_images full_disk)))) =
        [''a'', ''b'', ''2025-01-03T00-00-00-000Z-k3x9qz'']"
    unfolding persist_failure_full generated_record imageMetadata_two_images
    by (auto split: prod.splits simp: Map_set_def)
  from edi have e': "fst (callTool data_env sample_upstream
              (edit_image ''/srv/app/generated_imgs/generated-a.png'' ''make it blue'' None)
              two_images full_disk) =
        Inl (McpError InternalError ''Failed to edit image: ENOSPC: no space left on device, write'')
     \<and> map fst (imageMetadata (fst (snd (callTool data_env sample_upstream
             (edit_image ''/srv/app/generated_imgs/generated-a.png'' ''make it blue'' None)
             two_images full_disk)))) =
        [''a'', ''b'', ''2025-01-03T00-00-00-000Z-k3x9qz'']"
    unfolding persist_failure_full edited_record imageMetadata_two_images
    by (auto split: prod.splits simp: Map_set_def)
  from metadata_denied_full d' g' e' show ?thesis by blast
qed

end
